theory Spec2Isabelle
  imports Main "HOL-Library.Char_ord" "HOL-Library.List_Lexorder"
begin

section \<open>Device configuration of hyperglass: a model of \<open>models/config/devices.py\<close>\<close>

text \<open>
  The module validates the per-router entries of \<open>devices.yaml\<close>. A raw definition (a
  keyword dictionary) becomes a \<open>Device\<close>; the list of all definitions becomes the
  \<open>Devices\<close> directory. Every \<open>raise\<close> of the source is an \<open>Inl\<close> result here, and the
  collaborators that live in other modules (constants, the directive catalogue, the
  format-key parser, name resolution, the driver table) are fields of an environment
  record, so that every theorem holds for each of their values.
\<close>

subsection \<open>Exceptions\<close>

text \<open>
  \<open>ConfigError\<close> carries its message template and its keyword arguments, as the source
  passes them. \<open>ValidationError\<close> is what pydantic raises for a field of the wrong type;
  it carries the field's name. \<open>OSError\<close> stands for what the file system raises
  (\<open>FileNotFoundError\<close>, \<open>PermissionError\<close>); it carries the path.
\<close>

datatype error =
    ValueError string
  | ConfigError string "(string \<times> string) list"
  | UnsupportedDevice string
  | ValidationError string
  | OSError string

fun is_ConfigError :: "error \<Rightarrow> bool" where
  "is_ConfigError (ConfigError msg kwargs) = True"
| "is_ConfigError e = False"

text \<open>The message templates of the four \<open>ConfigError\<close>s of the module.\<close>

definition missing_platform_message :: string where
  "missing_platform_message =
     ''Device '{device}' is missing a 'platform' (Network Operating System) property''"

definition unresolvable_message :: string where
  "unresolvable_message = ''Device '{d}' has an address of '{a}', which is not resolvable.''"

definition structured_output_message :: string where
  "structured_output_message =
     ''The 'structured_output' field is set to 'true' on device '{d}' with '' @
     ''platform '{p}', which does not support structured output''"

definition missing_attr_message :: string where
  "missing_attr_message =
     ''Device '{d}' has a command that references attribute '{a}', '' @
     ''but '{a}' is missing from device attributes''"

subsection \<open>Strings\<close>

text \<open>
  A \<open>char\<close> stands for a code point below 256. \<open>isspace\<close> is Python's notion of white
  space on that range, which is what both \<open>\s\<close> of \<open>re\<close> and \<open>str.split()\<close> use. A code
  point above 255 is either white space, and then treated like any other white space,
  or removed by the regular expression like any other character outside the class.
\<close>

definition isspace :: "char \<Rightarrow> bool" where
  "isspace c = (c \<in> set [CHR 0x09, CHR 0x0A, CHR 0x0B, CHR 0x0C, CHR 0x0D,
                           CHR 0x1C, CHR 0x1D, CHR 0x1E, CHR 0x1F, CHR 0x20,
                           CHR 0x85, CHR 0xA0])"

definition ascii_uppercase :: string where
  "ascii_uppercase = ''ABCDEFGHIJKLMNOPQRSTUVWXYZ''"

definition ascii_lowercase :: string where
  "ascii_lowercase = ''abcdefghijklmnopqrstuvwxyz''"

definition digits :: string where
  "digits = ''0123456789''"

text \<open>The character class \<^verbatim>\<open>[A-Za-z0-9\_\-\s]\<close> whose complement \<open>re.sub\<close> deletes.\<close>

definition id_kept :: "char \<Rightarrow> bool" where
  "id_kept c = (c \<in> set ascii_uppercase \<or> c \<in> set ascii_lowercase \<or> c \<in> set digits
                \<or> c = CHR ''_'' \<or> c = CHR ''-'' \<or> isspace c)"

definition scrub :: "string \<Rightarrow> string" where
  "scrub name = filter id_kept name"

text \<open>
  \<open>str.split()\<close> without arguments: the maximal runs of characters that are not white
  space, in order; \<open>cur\<close> is the run being read.
\<close>

fun split_from :: "string \<Rightarrow> string \<Rightarrow> string list" where
  "split_from cur [] = (if cur = [] then [] else [cur])"
| "split_from cur (c # cs) =
     (if isspace c
      then (if cur = [] then split_from [] cs else cur # split_from [] cs)
      else split_from (cur @ [c]) cs)"

definition py_split :: "string \<Rightarrow> string list" where
  "py_split s = split_from [] s"

fun py_join :: "string \<Rightarrow> string list \<Rightarrow> string" where
  "py_join sep [] = []"
| "py_join sep [x] = x"
| "py_join sep (x # y # ys) = x @ sep @ py_join sep (y # ys)"

text \<open>
  \<open>str.lower()\<close> on the characters that can reach it: after \<open>scrub\<close> and \<open>split\<close> only
  ASCII letters, digits, underscore and hyphen are left, and of these only the capital
  letters change.
\<close>

definition lower_char :: "char \<Rightarrow> char" where
  "lower_char c = (case map_of (zip ascii_uppercase ascii_lowercase) c of
                     Some l \<Rightarrow> l | None \<Rightarrow> c)"

definition py_lower :: "string \<Rightarrow> string" where
  "py_lower s = map lower_char s"

definition startswith :: "string \<Rightarrow> string \<Rightarrow> bool" where
  "startswith s prefix = (take (length prefix) s = prefix)"

subsection \<open>The data model\<close>

text \<open>Rules and directives, as far as this module reads them.\<close>

record rule =
  commands :: "string list"

text \<open>
  Modelled from the spec: the class \<open>Directive\<close> is defined in \<open>models/directive.py\<close>,
  outside the module modelled here. The spec gives it an id, a list of rules
  (each with a list of command templates), a list of plugin file references and "a
  notion of being a platform built-in"; \<open>builtin_platforms\<close> lists the platforms the
  catalogue pre-associates the directive with, and is empty for any other directive.
\<close>

record directive =
  directive_id :: string
  rules :: "rule list"
  plugins :: "string list"
  builtin_platforms :: "string list"

record network =
  network_name :: string
  network_display_name :: string

record ssl =
  enable :: bool
  cert :: "string option"

text \<open>
  An address after pydantic has tried \<open>IPv4Address\<close>, \<open>IPv6Address\<close> and \<open>StrictStr\<close>
  in turn: an IP address, or else a host name.
\<close>

datatype address = IPAddress string | Hostname string

text \<open>
  An entry of the raw \<open>directives\<close> list is a string (a directive id), a dictionary of
  options, or something else. An option's value is a strict boolean, a list of strings,
  or some other value that the field \<open>builtins\<close> does not accept.
\<close>

datatype option_value = BoolValue bool | StrList "string list" | OtherValue

datatype statement = Str string | Dict "(string \<times> option_value) list" | Other

text \<open>
  The keyword dictionary a device is built from, after \<open>check_legacy_fields\<close> (another
  module's, it renames deprecated keys) has returned it. A key that may be missing is
  an option; a missing \<open>directives\<close> key is the empty list, a missing \<open>attrs\<close> key the
  empty map, as \<open>values.get("directives", [])\<close> and the field's default have it.
  Credentials and proxies are opaque references.
\<close>

record raw_device =
  raw_name :: "string option"
  raw_display_name :: "string option"
  raw_address :: address
  raw_network :: network
  raw_credential :: string
  raw_proxy :: "string option"
  raw_port :: "int option"
  raw_ssl :: "ssl option"
  raw_platform :: "string option"
  raw_directives :: "statement list"
  raw_structured_output :: "bool option"
  raw_driver :: "string option"
  raw_attrs :: "string \<rightharpoonup> string"

record device =
  device_id :: string
  name :: string
  address :: address
  network :: network
  credential :: string
  proxy :: "string option"
  display_name :: "string option"
  port :: int
  ssl :: "ssl option"
  platform :: string
  directives :: "directive list"
  structured_output :: bool
  driver :: "string option"
  attrs :: "string \<rightharpoonup> string"

text \<open>
  What the module imports from the rest of the package: the alias table
  \<open>SCRAPE_HELPERS\<close>, the first component of \<open>validate_platform\<close>, the tuple
  \<open>SUPPORTED_STRUCTURED_OUTPUT\<close>, the catalogue \<open>use_state("directives")\<close>,
  \<open>get_fmt_keys\<close>, whether \<open>resolve_hostname\<close> yields anything, \<open>get_driver\<close> (which may
  raise), and \<open>Settings.app_path\<close>. The last three fields are \<open>pathlib\<close> on the file
  system the program runs on: the operator \<open>/\<close> that joins a path and a component,
  \<open>Path.exists\<close>, and \<open>Path.touch\<close>, which creates the file or raises.
\<close>

record env =
  SCRAPE_HELPERS :: "string \<rightharpoonup> string"
  validate_platform :: "string \<Rightarrow> bool"
  SUPPORTED_STRUCTURED_OUTPUT :: "string list"
  use_state_directives :: "directive list"
  get_fmt_keys :: "string \<Rightarrow> string list"
  resolve_hostname :: "string \<Rightarrow> bool"
  get_driver :: "string \<Rightarrow> string option \<Rightarrow> error + string"
  app_path :: string
  path_join :: "string \<Rightarrow> string \<Rightarrow> string"
  path_exists :: "string \<Rightarrow> bool"
  path_touch :: "string \<Rightarrow> error + unit"

subsection \<open>Device identity\<close>

text \<open>The inner function \<open>generate_id\<close> of \<open>Device._generate_id\<close>.\<close>

definition generate_id :: "string \<Rightarrow> string" where
  "generate_id nm = py_lower (py_join ''_'' (py_split (scrub nm)))"

text \<open>
  \<open>Device._generate_id\<close>: pops \<open>name\<close> and \<open>display_name\<close> and returns the id, the name to
  display and the remaining values. The deprecation warning is a log line only.
\<close>

definition Device_generate_id :: "raw_device \<Rightarrow> error + (string \<times> string \<times> raw_device)" where
  "Device_generate_id values =
     (let rest = values\<lparr>raw_name := None, raw_display_name := None\<rparr> in
      case raw_name values of
        None \<Rightarrow> Inl (ValueError ''name is required.'')
      | Some nm \<Rightarrow>
          (case raw_display_name values of
             Some legacy_display_name \<Rightarrow>
               Inr (generate_id legacy_display_name, legacy_display_name, rest)
           | None \<Rightarrow> Inr (generate_id nm, nm, rest)))"

subsection \<open>The directive catalogue\<close>

text \<open>
  Modelled from the spec: the collection class \<open>Directives\<close> (its methods
  \<open>filter_by_ids\<close>, \<open>device_builtins\<close>, \<open>matching\<close> and its \<open>+=\<close>) is defined in
  \<open>models/directive.py\<close>, outside the module modelled here. The spec: explicit
  ids are resolved against the catalogue; the catalogue's built-ins are scoped to the
  device's platform; a list of ids keeps "only the subset of platform built-ins whose
  id is in that list"; the merge is "explicit first, then included built-ins,
  duplicates by id removed keeping first occurrence".
\<close>

definition filter_by_ids :: "directive list \<Rightarrow> string list \<Rightarrow> directive list" where
  "filter_by_ids ds ids = filter (\<lambda>d. directive_id d \<in> set ids) ds"

definition device_builtins :: "directive list \<Rightarrow> string \<Rightarrow> directive list" where
  "device_builtins ds p = filter (\<lambda>d. p \<in> set (builtin_platforms d)) ds"

definition matching :: "directive list \<Rightarrow> string list \<Rightarrow> directive list" where
  "matching ds ids = filter (\<lambda>d. directive_id d \<in> set ids) ds"

fun unique_from :: "string list \<Rightarrow> directive list \<Rightarrow> directive list" where
  "unique_from seen [] = []"
| "unique_from seen (d # ds) =
     (if directive_id d \<in> set seen then unique_from seen ds
      else d # unique_from (directive_id d # seen) ds)"

definition directives_add :: "directive list \<Rightarrow> directive list \<Rightarrow> directive list" where
  "directives_add xs ys = unique_from [] (xs @ ys)"

subsection \<open>Directive options\<close>

text \<open>
  \<open>DirectiveOptions\<close> has the one field \<open>builtins: Union[StrictBool, List[StrictStr]] =
  True\<close> and ignores any other key. Its argument is the dictionary merged from all
  dictionary entries of the raw list, where a later entry overwrites an earlier one.
\<close>

datatype builtins_option = BuiltinsBool bool | BuiltinsList "string list"

definition merged_options :: "statement list \<Rightarrow> (string \<times> option_value) list" where
  "merged_options statements =
     concat (map (\<lambda>s. case s of Dict kvs \<Rightarrow> kvs | _ \<Rightarrow> []) statements)"

definition DirectiveOptions :: "(string \<times> option_value) list \<Rightarrow> error + builtins_option" where
  "DirectiveOptions kwargs =
     (case map_of (rev kwargs) ''builtins'' of
        None \<Rightarrow> Inr (BuiltinsBool True)
      | Some (BoolValue b) \<Rightarrow> Inr (BuiltinsBool b)
      | Some (StrList ids) \<Rightarrow> Inr (BuiltinsList ids)
      | Some OtherValue \<Rightarrow> Inl (ValidationError ''builtins''))"

text \<open>String entries of the raw list, without those that begin with two underscores.\<close>

definition string_directive_ids :: "statement list \<Rightarrow> string list" where
  "string_directive_ids statements =
     concat (map (\<lambda>s. case s of Str i \<Rightarrow> (if startswith i ''__'' then [] else [i]) | _ \<Rightarrow> [])
       statements)"

subsection \<open>The validators of \<open>Device\<close>\<close>

text \<open>
  \<open>Device.validate_device\<close>, the root validator that runs before the fields': it returns
  the two entries of \<open>values\<close> that it writes, \<open>platform\<close> and \<open>directives\<close>. (The source
  passes the set \<open>{values["name"]}\<close> as the keyword \<open>device\<close> of the first error; it is
  kept as the name.) \<open>resolve_directives\<close> is its second half, from \<open>use_state\<close> on.
\<close>

definition rewrite_platform :: "env \<Rightarrow> string \<Rightarrow> string" where
  "rewrite_platform e p = (case SCRAPE_HELPERS e p of Some helper \<Rightarrow> helper | None \<Rightarrow> p)"

definition resolve_directives :: "env \<Rightarrow> string \<Rightarrow> statement list \<Rightarrow> error + directive list" where
  "resolve_directives e pf statements =
     (case DirectiveOptions (merged_options statements) of
        Inl err \<Rightarrow> Inl err
      | Inr directive_options \<Rightarrow>
          Inr (let directive_ids = string_directive_ids statements;
                   device_directives = filter_by_ids (use_state_directives e) directive_ids;
                   builtins = device_builtins (use_state_directives e) pf
               in (case directive_options of
                     BuiltinsBool True \<Rightarrow> directives_add device_directives builtins
                   | BuiltinsList ids \<Rightarrow> directives_add device_directives (matching builtins ids)
                   | BuiltinsBool False \<Rightarrow> device_directives)))"

definition validate_device :: "env \<Rightarrow> string \<Rightarrow> raw_device \<Rightarrow> error + (string \<times> directive list)" where
  "validate_device e nm values =
     (case raw_platform values of
        None \<Rightarrow> Inl (ConfigError missing_platform_message [(''device'', nm)])
      | Some p \<Rightarrow>
          (let pf = rewrite_platform e p in
           if \<not> validate_platform e pf then Inl (UnsupportedDevice pf)
           else
             (case resolve_directives e pf (raw_directives values) of
                Inl err \<Rightarrow> Inl err
              | Inr device_directives \<Rightarrow> Inr (pf, device_directives))))"

definition validate_address :: "env \<Rightarrow> string \<Rightarrow> address \<Rightarrow> error + address" where
  "validate_address e nm v =
     (case v of
        IPAddress a \<Rightarrow> Inr v
      | Hostname h \<Rightarrow>
          (if \<not> resolve_hostname e h
           then Inl (ConfigError unresolvable_message [(''d'', nm), (''a'', h)])
           else Inr v))"

definition validate_structured_output :: "env \<Rightarrow> string \<Rightarrow> string \<Rightarrow> bool option \<Rightarrow> error + bool" where
  "validate_structured_output e nm pf v =
     (if v = Some True then
        (if pf \<notin> set (SUPPORTED_STRUCTURED_OUTPUT e)
         then Inl (ConfigError structured_output_message [(''d'', nm), (''p'', pf)])
         else Inr True)
      else if v = None \<and> pf \<in> set (SUPPORTED_STRUCTURED_OUTPUT e) then Inr True
      else Inr False)"

text \<open>
  \<open>Device.validate_ssl\<close>: the default certificate path
  \<^verbatim>\<open>Settings.app_path / "certs" / f'{values["name"]}.pem'\<close>. When no file is there,
  the source logs a warning and calls \<open>touch\<close>, whose exception leaves the constructor.
  A file that \<open>touch\<close> has created exists from then on; since \<open>touch\<close> succeeds again on
  a file it has created, asking the same \<open>path_exists\<close> later gives the same result.
\<close>

definition cert_file :: "env \<Rightarrow> string \<Rightarrow> string" where
  "cert_file e nm = path_join e (path_join e (app_path e) ''certs'') (nm @ ''.pem'')"

definition validate_ssl :: "env \<Rightarrow> string \<Rightarrow> ssl option \<Rightarrow> error + ssl option" where
  "validate_ssl e nm v =
     (case v of
        None \<Rightarrow> Inr None
      | Some s \<Rightarrow>
          (if enable s \<and> cert s = None
           then (if \<not> path_exists e (cert_file e nm)
                 then (case path_touch e (cert_file e nm) of
                         Inl err \<Rightarrow> Inl err
                       | Inr u \<Rightarrow> Inr (Some (s\<lparr>cert := Some (cert_file e nm)\<rparr>)))
                 else Inr (Some (s\<lparr>cert := Some (cert_file e nm)\<rparr>)))
           else Inr (Some s)))"

text \<open>
  \<open>Device.validate_driver\<close>. The validator is not declared \<open>always\<close>, so pydantic does not
  call it for a definition without a \<open>driver\<close> key.
\<close>

definition validate_driver :: "env \<Rightarrow> string \<Rightarrow> string option \<Rightarrow> error + string option" where
  "validate_driver e pf v =
     (case v of
        None \<Rightarrow> Inr None
      | Some drv \<Rightarrow> (case get_driver e pf (Some drv) of Inl err \<Rightarrow> Inl err | Inr r \<Rightarrow> Inr (Some r)))"

subsection \<open>Building a device\<close>

text \<open>
  \<open>super().__init__(id=_id, **values)\<close>: pydantic runs the root validator, then the
  fields in the order of their declaration, and an exception of a validator that is no
  \<open>ValueError\<close> leaves the constructor at once.
\<close>

definition Device_model_init :: "env \<Rightarrow> string \<Rightarrow> string \<Rightarrow> raw_device \<Rightarrow> error + device" where
  "Device_model_init e ident nm values =
     (case validate_device e nm values of
        Inl err \<Rightarrow> Inl err
      | Inr (pf, device_directives) \<Rightarrow>
          (case validate_address e nm (raw_address values) of
             Inl err \<Rightarrow> Inl err
           | Inr addr \<Rightarrow>
               (case validate_ssl e nm (raw_ssl values) of
                  Inl err \<Rightarrow> Inl err
                | Inr checked_ssl \<Rightarrow>
                    (case validate_structured_output e nm pf (raw_structured_output values) of
                       Inl err \<Rightarrow> Inl err
                     | Inr so \<Rightarrow>
                         (case validate_driver e pf (raw_driver values) of
                            Inl err \<Rightarrow> Inl err
                          | Inr drv \<Rightarrow>
                              Inr \<lparr> device_id = ident, name = nm, address = addr,
                                    network = raw_network values,
                                    credential = raw_credential values,
                                    proxy = raw_proxy values,
                                    display_name = raw_display_name values,
                                    port = (case raw_port values of None \<Rightarrow> 22 | Some n \<Rightarrow> n),
                                    ssl = checked_ssl,
                                    platform = pf, directives = device_directives,
                                    structured_output = so, driver = drv,
                                    attrs = raw_attrs values \<rparr>)))))"

definition directive_commands :: "device \<Rightarrow> string list" where
  "directive_commands d =
     concat (map (\<lambda>directive. concat (map commands (rules directive))) (directives d))"

definition directive_ids :: "device \<Rightarrow> string list" where
  "directive_ids d = map directive_id (directives d)"

definition has_directives :: "device \<Rightarrow> string list \<Rightarrow> bool" where
  "has_directives d ids = list_ex (\<lambda>i. i \<in> set (directive_ids d)) ids"

text \<open>
  \<open>Device._validate_directive_attrs\<close>. The keys form a Python set, whose order of
  iteration is not fixed by the language; the model visits them in the order of their
  last occurrence, and no theorem below depends on that order.
\<close>

definition attr_keys :: "env \<Rightarrow> device \<Rightarrow> string list" where
  "attr_keys e d =
     remdups (filter (\<lambda>key. key \<noteq> ''target'')
       (concat (map (get_fmt_keys e) (directive_commands d))))"

fun check_attr_keys :: "string \<Rightarrow> (string \<rightharpoonup> string) \<Rightarrow> string list \<Rightarrow> error + unit" where
  "check_attr_keys nm as [] = Inr ()"
| "check_attr_keys nm as (key # keys) =
     (if as key = None
      then Inl (ConfigError missing_attr_message [(''d'', nm), (''a'', key)])
      else check_attr_keys nm as keys)"

definition Device_validate_directive_attrs :: "env \<Rightarrow> device \<Rightarrow> error + unit" where
  "Device_validate_directive_attrs e d =
     (let keys = attr_keys e d;
          as = attrs d |` set keys
      in check_attr_keys (name d) as keys)"

text \<open>\<open>Device.__init__\<close>.\<close>

definition Device_init :: "env \<Rightarrow> raw_device \<Rightarrow> error + device" where
  "Device_init e kwargs =
     (case Device_generate_id kwargs of
        Inl err \<Rightarrow> Inl err
      | Inr (ident, nm, values) \<Rightarrow>
          (case Device_model_init e ident nm values of
             Inl err \<Rightarrow> Inl err
           | Inr d \<Rightarrow>
               (case Device_validate_directive_attrs e d of
                  Inl err \<Rightarrow> Inl err
                | Inr u \<Rightarrow> Inr d)))"

text \<open>\<open>Device.export_api\<close>: a dictionary with three keys, as an association list.\<close>

definition Device_export_api :: "device \<Rightarrow> (string \<times> string) list" where
  "Device_export_api d =
     [(''id'', device_id d), (''name'', name d),
      (''network'', network_display_name (network d))]"

subsection \<open>The directory of devices\<close>

record devices =
  ids :: "string list"
  hostnames :: "string list"
  objects :: "device list"

text \<open>
  A Python set as the list of its elements in the order of insertion: \<open>set.add\<close> leaves
  the set as it is when it holds an element equal to the new one. The language does not
  fix the order in which a set is iterated; the theorems on the directory speak of the
  elements only, not of their order.
\<close>

definition set_add :: "('a \<Rightarrow> 'a \<Rightarrow> bool) \<Rightarrow> 'a list \<Rightarrow> 'a \<Rightarrow> 'a list" where
  "set_add eq s x = (if list_ex (\<lambda>y. eq y x) s then s else s @ [x])"

text \<open>
  Modelled from the spec: \<open>Device\<close> inherits \<open>__eq__\<close> and \<open>__hash__\<close> from
  \<open>HyperglassModelWithId\<close> in \<open>models/main.py\<close>, outside the module modelled here. The
  spec: the device objects are collected in a set with "equality/hash defined by id".
\<close>

definition device_eq :: "device \<Rightarrow> device \<Rightarrow> bool" where
  "device_eq a b = (device_id a = device_id b)"

text \<open>The loop of \<open>Devices.__init__\<close> over the definitions, on the three sets.\<close>

fun ingest :: "env \<Rightarrow> raw_device list \<Rightarrow> device list \<times> string list \<times> string list
    \<Rightarrow> error + (device list \<times> string list \<times> string list)" where
  "ingest e [] acc = Inr acc"
| "ingest e (defn # rest) (objs, hosts, idents) =
     (case Device_init e defn of
        Inl err \<Rightarrow> Inl err
      | Inr d \<Rightarrow>
          ingest e rest
            (set_add device_eq objs d, set_add (=) hosts (name d),
             set_add (=) idents (device_id d)))"

definition Devices_init :: "env \<Rightarrow> raw_device list \<Rightarrow> error + devices" where
  "Devices_init e input_params =
     (case ingest e input_params ([], [], []) of
        Inl err \<Rightarrow> Inl err
      | Inr (objs, hosts, idents) \<Rightarrow>
          Inr \<lparr> ids = idents, hostnames = hosts, objects = sort_key name objs \<rparr>)"

definition Devices_export_api :: "devices \<Rightarrow> (string \<times> string) list list" where
  "Devices_export_api ds = map Device_export_api (objects ds)"

text \<open>
  \<open>Devices.directive_plugins\<close>. \<open>Path\<close> is the constructor of \<open>pathlib.Path\<close>, a parameter.
  The result maps a path to a set of ids: the source turns each set into a tuple, in
  an order the language does not fix. The set of all directives is taken with the
  equality of HOL; an equality by id gives the same set whenever directives with the
  same id are the same directive, as those drawn from one catalogue keyed by id are.
\<close>

definition add_plugin :: "('p \<rightharpoonup> string set) \<Rightarrow> 'p \<Rightarrow> string \<Rightarrow> ('p \<rightharpoonup> string set)" where
  "add_plugin result plugin i =
     (let result' = (if result plugin = None then result(plugin \<mapsto> {}) else result)
      in result'(plugin \<mapsto> insert i (case result' plugin of Some s \<Rightarrow> s | None \<Rightarrow> {})))"

definition directive_step :: "(string \<Rightarrow> 'p) \<Rightarrow> string list \<Rightarrow> directive \<Rightarrow> ('p \<rightharpoonup> string set)
    \<Rightarrow> ('p \<rightharpoonup> string set)" where
  "directive_step Path plugin_names d result =
     fold (\<lambda>plugin r. add_plugin r plugin (directive_id d))
       (map Path (filter (\<lambda>p. p \<in> set plugin_names) (plugins d))) result"

definition directive_plugins :: "(string \<Rightarrow> 'p) \<Rightarrow> devices \<Rightarrow> ('p \<rightharpoonup> string set)" where
  "directive_plugins Path ds =
     (let all_directives = remdups (concat (map directives (objects ds)));
          plugin_names = remdups (concat (map plugins all_directives))
      in fold (directive_step Path plugin_names) all_directives Map.empty)"

subsection \<open>The id as the spec words it\<close>

text \<open>
  The spec describes the id as the name with every character outside the class
  stripped, white-space runs collapsed "into single underscores", and the result in
  lower case. \<open>spec_generate_id\<close> follows these words: each maximal run of white space
  becomes one underscore. \<open>strip_ws\<close> removes the white space at both ends of a string,
  and \<open>id_char\<close> is the class \<^verbatim>\<open>[a-z0-9_-]\<close>.
\<close>

fun collapse_from :: "bool \<Rightarrow> string \<Rightarrow> string" where
  "collapse_from in_run [] = []"
| "collapse_from in_run (c # cs) =
     (if isspace c
      then (if in_run then collapse_from True cs else CHR ''_'' # collapse_from True cs)
      else c # collapse_from False cs)"

definition spec_generate_id :: "string \<Rightarrow> string" where
  "spec_generate_id nm = py_lower (collapse_from False (scrub nm))"

definition strip_ws :: "string \<Rightarrow> string" where
  "strip_ws s = rev (dropWhile isspace (rev (dropWhile isspace s)))"

definition id_char :: "char \<Rightarrow> bool" where
  "id_char c = (c \<in> set ascii_lowercase \<or> c \<in> set digits \<or> c = CHR ''_'' \<or> c = CHR ''-'')"

text \<open>
  An auxiliary form of joining the split: an underscore is written only once the next
  character that is no white space arrives.
\<close>

fun lazy_join :: "bool \<Rightarrow> bool \<Rightarrow> string \<Rightarrow> string" where
  "lazy_join started pending [] = []"
| "lazy_join started pending (c # cs) =
     (if isspace c then lazy_join started started cs
      else (if pending then CHR ''_'' # c # lazy_join True False cs
            else c # lazy_join True False cs))"

subsection \<open>A small configuration\<close>

text \<open>
  A catalogue of three directives, one explicit and two built-ins of \<open>cisco_ios\<close>, an
  environment around it, and the definition of one router; the theorems below are run
  on them. The file system of the environment has no certificate yet and no directory
  \<^verbatim>\<open>certs/#\<close>, so that \<open>touch\<close> fails for the name \<^verbatim>\<open>#/#\<close>.
\<close>

definition show_bgp :: directive where
  "show_bgp = \<lparr> directive_id = ''show-bgp'',
                 rules = [\<lparr> commands = [''show bgp {target} vrf {vrf}''] \<rparr>],
                 plugins = [''bgp_route.py'', ''remove_command.py''],
                 builtin_platforms = [] \<rparr>"

definition builtin_ping :: directive where
  "builtin_ping = \<lparr> directive_id = ''__hyperglass_cisco_ios_ping__'',
                     rules = [\<lparr> commands = [''ping {target} source {source}''] \<rparr>],
                     plugins = [''remove_command.py''],
                     builtin_platforms = [''cisco_ios''] \<rparr>"

definition builtin_traceroute :: directive where
  "builtin_traceroute = \<lparr> directive_id = ''__hyperglass_cisco_ios_traceroute__'',
                           rules = [\<lparr> commands = [''traceroute {target}''] \<rparr>],
                           plugins = [],
                           builtin_platforms = [''cisco_ios''] \<rparr>"

definition example_fmt_keys :: "string \<Rightarrow> string list" where
  "example_fmt_keys command =
     (case map_of [(''show bgp {target} vrf {vrf}'', [''target'', ''vrf'']),
                   (''ping {target} source {source}'', [''target'', ''source'']),
                   (''traceroute {target}'', [''target''])] command of
        Some keys \<Rightarrow> keys | None \<Rightarrow> [])"

definition example_env :: env where
  "example_env =
     \<lparr> SCRAPE_HELPERS = [''ios'' \<mapsto> ''cisco_ios'', ''junos'' \<mapsto> ''juniper'',
                         ''tsnr'' \<mapsto> ''tnsr''],
       validate_platform = (\<lambda>p. p \<in> set [''cisco_ios'', ''juniper'']),
       SUPPORTED_STRUCTURED_OUTPUT = [''juniper''],
       use_state_directives = [show_bgp, builtin_ping, builtin_traceroute],
       get_fmt_keys = example_fmt_keys,
       resolve_hostname = (\<lambda>h. h = ''rtr1.example.net''),
       get_driver = (\<lambda>p d. Inr (case d of Some drv \<Rightarrow> drv | None \<Rightarrow> ''netmiko'')),
       app_path = ''/etc/hyperglass'',
       path_join = (\<lambda>dir component. dir @ ''/'' @ component),
       path_exists = (\<lambda>p. False),
       path_touch = (\<lambda>p. if p = ''/etc/hyperglass/certs/#/#.pem'' then Inl (OSError p)
                         else Inr ()) \<rparr>"

definition example_raw :: raw_device where
  "example_raw =
     \<lparr> raw_name = Some ''Core RTR #1'', raw_display_name = None,
       raw_address = Hostname ''rtr1.example.net'',
       raw_network = \<lparr> network_name = ''core'', network_display_name = ''Core Network'' \<rparr>,
       raw_credential = ''default'', raw_proxy = None, raw_port = None, raw_ssl = None,
       raw_platform = Some ''ios'', raw_directives = [Str ''show-bgp''],
       raw_structured_output = None, raw_driver = None,
       raw_attrs = [''vrf'' \<mapsto> ''default'', ''source'' \<mapsto> ''Loopback0''] \<rparr>"

definition example_device :: device where
  "example_device =
     \<lparr> device_id = ''core_rtr_1'', name = ''Core RTR #1'',
       address = Hostname ''rtr1.example.net'',
       network = \<lparr> network_name = ''core'', network_display_name = ''Core Network'' \<rparr>,
       credential = ''default'', proxy = None, display_name = None, port = 22, ssl = None,
       platform = ''cisco_ios'',
       directives = [show_bgp, builtin_ping, builtin_traceroute],
       structured_output = False, driver = None,
       attrs = [''vrf'' \<mapsto> ''default'', ''source'' \<mapsto> ''Loopback0''] \<rparr>"

text \<open>
  The same router with \<open>ssl\<close> enabled and no certificate given, and the device it
  becomes: the certificate is the default file under the application's path.
\<close>

definition secured_raw :: raw_device where
  "secured_raw = example_raw\<lparr>raw_ssl := Some \<lparr> enable = True, cert = None \<rparr>\<rparr>"

definition secured_device :: device where
  "secured_device = example_device\<lparr>ssl :=
     Some \<lparr> enable = True, cert = Some ''/etc/hyperglass/certs/Core RTR #1.pem'' \<rparr>\<rparr>"

text \<open>
  The router of the same definition on the platform \<open>juniper\<close>, which has no built-ins
  in the catalogue and supports structured output.
\<close>

definition juniper_device :: device where
  "juniper_device = example_device\<lparr>platform := ''juniper'', directives := [show_bgp],
                                    structured_output := True\<rparr>"


text \<open>
  A second definition of a router: another name with the same id as the first.
\<close>

definition twin_raw :: raw_device where
  "twin_raw = example_raw\<lparr>raw_name := Some ''core rtr 1''\<rparr>"

definition twin_device :: device where
  "twin_device = example_device\<lparr>name := ''core rtr 1''\<rparr>"

text \<open>
  A second router with two of the three directives, and the directory of both.
\<close>

definition edge_device :: device where
  "edge_device = example_device\<lparr>device_id := ''edge_rtr_2'', name := ''Edge RTR 2'',
                                 directives := [show_bgp, builtin_ping]\<rparr>"

definition example_devices :: devices where
  "example_devices =
     \<lparr> ids = [''core_rtr_1'', ''edge_rtr_2''], hostnames = [''Core RTR #1'', ''Edge RTR 2''],
       objects = [example_device, edge_device] \<rparr>"

subsection \<open>The keys a device's commands refer to\<close>

text \<open>
  Every placeholder key, other than the reserved \<open>target\<close>, of any command of any rule of
  any directive of the device.
\<close>

definition referenced_keys :: "env \<Rightarrow> device \<Rightarrow> string set" where
  "referenced_keys e d =
     {key. \<exists>directive\<in>set (directives d). \<exists>r\<in>set (rules directive). \<exists>command\<in>set (commands r).
             key \<in> set (get_fmt_keys e command) \<and> key \<noteq> ''target''}"

subsection \<open>The directive set as the spec words it\<close>




subsection \<open>Reading the plugin index\<close>

text \<open>
  The ids recorded under a path, empty when the path is no key; and the property of the
  index that no key maps to the empty set.
\<close>

definition ids_at :: "('p \<rightharpoonup> string set) \<Rightarrow> 'p \<Rightarrow> string set" where
  "ids_at result k = (case result k of None \<Rightarrow> {} | Some s \<Rightarrow> s)"

definition no_empty_entry :: "('p \<rightharpoonup> string set) \<Rightarrow> bool" where
  "no_empty_entry result = (\<forall>k. result k \<noteq> Some {})"

section \<open>Properties\<close>

subsection \<open>Splitting, joining and the shape of an id\<close>

lemma split_from_nonempty: "cur \<noteq> [] \<Longrightarrow> split_from cur s \<noteq> []"
  by (induction s arbitrary: cur) auto

lemma lazy_join_pending:
  "lazy_join True True s = (if split_from [] s = [] then [] else CHR ''_'' # lazy_join False False s)"
  by (induction s) (auto simp: split_from_nonempty)

lemma py_join_Cons: "py_join sep (x # xs) = (if xs = [] then x else x @ sep @ py_join sep xs)"
  by (cases xs) auto

lemma py_join_split_from:
  "py_join ''_'' (split_from cur s) = cur @ lazy_join (cur \<noteq> []) False s"
proof (induction s arbitrary: cur)
  case Nil
  then show ?case by simp
next
  case (Cons c cs)
  show ?case
  proof (cases "isspace c")
    case True
    then show ?thesis
      using Cons.IH [of "[]"] by (simp add: py_join_Cons lazy_join_pending)
  next
    case False
    then show ?thesis
      using Cons.IH [of "cur @ [c]"] by simp
  qed
qed

lemma lazy_join_all_space: "\<forall>c\<in>set w. isspace c \<Longrightarrow> lazy_join st p w = []"
  by (induction w arbitrary: p) auto

lemma lazy_join_append_space:
  "\<forall>c\<in>set w. isspace c \<Longrightarrow> lazy_join st p (s @ w) = lazy_join st p s"
  by (induction s arbitrary: st p) (auto simp: lazy_join_all_space)

lemma lazy_join_dropWhile: "lazy_join False False (dropWhile isspace s) = lazy_join False False s"
  by (induction s) auto

lemma lazy_join_collapse:
  "s = [] \<or> \<not> isspace (last s) \<Longrightarrow>
     lazy_join True False s = collapse_from False s \<and>
     (s \<noteq> [] \<longrightarrow> lazy_join True True s = CHR ''_'' # collapse_from True s)"
  by (induction s) (auto split: if_splits)

lemma lazy_join_collapse_start:
  assumes "s = [] \<or> \<not> isspace (hd s)" and "s = [] \<or> \<not> isspace (last s)"
  shows "lazy_join False False s = collapse_from False s"
proof (cases s)
  case Nil
  then show ?thesis by simp
next
  case (Cons c cs)
  with assms have "cs = [] \<or> \<not> isspace (last cs)" by (auto split: if_splits)
  with Cons assms show ?thesis using lazy_join_collapse [of cs] by simp
qed

lemma strip_ws_decomp:
  "dropWhile isspace s = strip_ws s @ rev (takeWhile isspace (rev (dropWhile isspace s)))"
proof -
  have "rev (dropWhile isspace s) =
          takeWhile isspace (rev (dropWhile isspace s)) @ dropWhile isspace (rev (dropWhile isspace s))"
    by simp
  then have "rev (rev (dropWhile isspace s)) =
          rev (takeWhile isspace (rev (dropWhile isspace s)) @ dropWhile isspace (rev (dropWhile isspace s)))"
    by simp
  then show ?thesis unfolding strip_ws_def by (simp del: takeWhile_dropWhile_id)
qed

lemma strip_ws_last: "strip_ws s = [] \<or> \<not> isspace (last (strip_ws s))"
proof (cases "dropWhile isspace (rev (dropWhile isspace s)) = []")
  case True
  then show ?thesis by (simp add: strip_ws_def)
next
  case False
  then show ?thesis by (simp add: strip_ws_def last_rev hd_dropWhile)
qed

lemma strip_ws_hd: "strip_ws s = [] \<or> \<not> isspace (hd (strip_ws s))"
proof (cases "strip_ws s = []")
  case True
  then show ?thesis by simp
next
  case False
  have "hd (dropWhile isspace s) = hd (strip_ws s)"
    using strip_ws_decomp [of s] False by (metis hd_append2)
  moreover have "dropWhile isspace s \<noteq> []"
  proof
    assume empty: "dropWhile isspace s = []"
    have "strip_ws s = []" unfolding strip_ws_def empty by simp
    with False show False by simp
  qed
  ultimately show ?thesis using hd_dropWhile [of isspace s] by auto
qed

lemma py_join_py_split: "py_join ''_'' (py_split s) = collapse_from False (strip_ws s)"
proof -
  have "py_join ''_'' (py_split s) = lazy_join False False s"
    by (simp add: py_split_def py_join_split_from)
  also have "\<dots> = lazy_join False False (dropWhile isspace s)"
    by (simp add: lazy_join_dropWhile)
  also have "\<dots> = lazy_join False False (strip_ws s)"
    using strip_ws_decomp [of s]
      lazy_join_append_space [of "rev (takeWhile isspace (rev (dropWhile isspace s)))" False False "strip_ws s"]
    by (metis set_rev set_takeWhileD)
  also have "\<dots> = collapse_from False (strip_ws s)"
    by (rule lazy_join_collapse_start [OF strip_ws_hd strip_ws_last])
  finally show ?thesis .
qed

lemma set_lazy_join:
  "set (lazy_join st p s) \<subseteq> {c \<in> set s. \<not> isspace c} \<union> {CHR ''_''}"
  by (induction s arbitrary: st p) (auto split: if_splits)

lemma lower_char_table:
  "\<forall>c\<in>set (ascii_uppercase @ ascii_lowercase @ digits @ ''_-''). id_char (lower_char c)"
  by code_simp

lemma lower_char_id_char: "id_kept c \<Longrightarrow> \<not> isspace c \<Longrightarrow> id_char (lower_char c)"
  using lower_char_table by (auto simp: id_kept_def)

lemma id_char_table:
  "\<forall>c\<in>set (ascii_lowercase @ digits @ ''_-''). \<not> isspace c \<and> lower_char c = c"
  by code_simp

lemma id_char_props: "id_char c \<Longrightarrow> id_kept c \<and> \<not> isspace c \<and> lower_char c = c"
  using id_char_table by (auto simp: id_kept_def id_char_def)

lemma generate_id_chars: "c \<in> set (generate_id nm) \<Longrightarrow> id_char c"
proof -
  assume "c \<in> set (generate_id nm)"
  then obtain b where b: "b \<in> set (py_join ''_'' (py_split (scrub nm)))" and c: "c = lower_char b"
    by (auto simp: generate_id_def py_lower_def)
  from b have "b \<in> {c \<in> set (scrub nm). \<not> isspace c} \<union> {CHR ''_''}"
    using set_lazy_join [of False False "scrub nm"]
    by (auto simp: py_split_def py_join_split_from)
  then have "id_kept b \<and> \<not> isspace b"
    by (auto simp: scrub_def id_kept_def isspace_def)
  with c show "id_char c" by (simp add: lower_char_id_char)
qed

lemma split_from_no_space:
  "\<forall>c\<in>set s. \<not> isspace c \<Longrightarrow> split_from cur s = (if cur @ s = [] then [] else [cur @ s])"
  by (induction s arbitrary: cur) auto

lemma generate_id_fixed:
  assumes "\<forall>c\<in>set r. id_char c"
  shows "generate_id r = r"
proof -
  have "scrub r = r" using assms by (simp add: scrub_def id_char_props)
  moreover have "py_split r = (if r = [] then [] else [r])"
    using assms split_from_no_space [of r "[]"] by (simp add: py_split_def id_char_props)
  moreover have "py_lower r = r" using assms by (simp add: py_lower_def id_char_props map_idI)
  ultimately show ?thesis by (simp add: generate_id_def py_lower_def)
qed

lemma generate_id_idem: "generate_id (generate_id nm) = generate_id nm"
  by (rule generate_id_fixed) (simp add: generate_id_chars)

lemma generate_id_collapse: "generate_id nm = py_lower (collapse_from False (strip_ws (scrub nm)))"
  by (simp add: generate_id_def py_join_py_split)

text \<open>
  C5, as amended. For every name the derived id has only characters of \<^verbatim>\<open>[a-z0-9_-]\<close>
  (so it is in lower case); it is the scrubbed name without the white space at its two
  ends, each remaining run of white space replaced by one underscore, in lower case;
  and computing the id of an id returns it unchanged.
\<close>

theorem generate_id_slug:
  "(\<forall>c\<in>set (generate_id nm). id_char c) \<and>
   generate_id nm = py_lower (collapse_from False (strip_ws (scrub nm))) \<and>
   generate_id (generate_id nm) = generate_id nm"
  using generate_id_chars [of _ nm] generate_id_collapse [of nm] generate_id_idem [of nm]
  by blast

theorem generate_id_slug_witness:
  "generate_id (generate_id '' Core  RTR #1 '') = ''core_rtr_1'' \<and>
   list_all id_char ''core_rtr_1''"
proof -
  have run: "generate_id '' Core  RTR #1 '' = ''core_rtr_1''"
    by code_simp
  from generate_id_slug [of "'' Core  RTR #1 ''"]
  have chars: "\<forall>c\<in>set (generate_id '' Core  RTR #1 ''). id_char c"
    and idem: "generate_id (generate_id '' Core  RTR #1 '') = generate_id '' Core  RTR #1 ''"
    by blast+
  from chars idem show ?thesis
    unfolding run by (simp only: list_all_iff simp_thms)
qed

text \<open>
  C5 as the spec words it fails on a name with white space at an end: the code drops
  that run, where the spec's words put an underscore.
\<close>

theorem generate_id_leading_space_counterexample:
  "generate_id '' a'' = ''a'' \<and> spec_generate_id '' a'' = ''_a''"
  by code_simp

subsection \<open>The attributes a device's commands need\<close>

lemma set_attr_keys: "set (attr_keys e d) = referenced_keys e d"
  by (auto simp: attr_keys_def referenced_keys_def directive_commands_def)

lemma check_attr_keys_pass:
  "\<forall>key\<in>set keys. as key \<noteq> None \<Longrightarrow> check_attr_keys nm as keys = Inr ()"
  by (induction keys) auto

lemma check_attr_keys_fail:
  "\<exists>key\<in>set keys. as key = None \<Longrightarrow>
     \<exists>key\<in>set keys. as key = None \<and>
        check_attr_keys nm as keys = Inl (ConfigError missing_attr_message [(''d'', nm), (''a'', key)])"
  by (induction keys) auto

lemma validate_directive_attrs_pass:
  assumes "\<forall>key\<in>referenced_keys e d. key \<in> dom (attrs d)"
  shows "Device_validate_directive_attrs e d = Inr ()"
  unfolding Device_validate_directive_attrs_def Let_def
  by (rule check_attr_keys_pass) (use assms in \<open>auto simp: set_attr_keys restrict_map_def\<close>)

lemma validate_directive_attrs_fail:
  assumes "\<exists>key\<in>referenced_keys e d. key \<notin> dom (attrs d)"
  shows "\<exists>key\<in>referenced_keys e d. key \<notin> dom (attrs d) \<and>
           Device_validate_directive_attrs e d =
             Inl (ConfigError missing_attr_message [(''d'', name d), (''a'', key)])"
proof -
  let ?keys = "attr_keys e d"
  let ?as = "attrs d |` set ?keys"
  from assms have "\<exists>key\<in>set ?keys. ?as key = None"
    by (auto simp: set_attr_keys restrict_map_def)
  from check_attr_keys_fail [OF this, of "name d"]
  obtain key where "key \<in> set ?keys" "?as key = None"
    "check_attr_keys (name d) ?as ?keys =
       Inl (ConfigError missing_attr_message [(''d'', name d), (''a'', key)])"
    by blast
  then show ?thesis
    by (auto simp: Device_validate_directive_attrs_def Let_def set_attr_keys restrict_map_def
          split: if_splits)
qed

lemma Device_model_init_name: "Device_model_init e ident nm vals = Inr d \<Longrightarrow> name d = nm"
  by (auto simp: Device_model_init_def split: sum.splits prod.splits)

lemma Device_generate_id_attrs:
  "Device_generate_id kwargs = Inr (ident, nm, vals) \<Longrightarrow>
     Device_generate_id (kwargs\<lparr>raw_attrs := as\<rparr>) = Inr (ident, nm, vals\<lparr>raw_attrs := as\<rparr>)"
  by (auto simp: Device_generate_id_def Let_def split: option.splits)

lemma validate_device_attrs:
  "validate_device e nm (vals\<lparr>raw_attrs := as\<rparr>) = validate_device e nm vals"
  by (simp add: validate_device_def Let_def split: option.splits)

lemma Device_model_init_attrs:
  "Device_model_init e ident nm vals = Inr d \<Longrightarrow>
     Device_model_init e ident nm (vals\<lparr>raw_attrs := as\<rparr>) = Inr (d\<lparr>attrs := as\<rparr>)"
  by (auto simp: Device_model_init_def validate_device_attrs split: sum.splits prod.splits)

lemma Device_model_init_raw_attrs:
  "Device_model_init e ident nm vals = Inr d \<Longrightarrow> attrs d = raw_attrs vals"
  by (auto simp: Device_model_init_def split: sum.splits prod.splits)

lemma Device_generate_id_raw_attrs:
  "Device_generate_id kwargs = Inr (ident, nm, vals) \<Longrightarrow> raw_attrs vals = raw_attrs kwargs"
  by (auto simp: Device_generate_id_def Let_def split: option.splits)

lemma referenced_keys_attrs: "referenced_keys e (d\<lparr>attrs := as\<rparr>) = referenced_keys e d"
  by (simp add: referenced_keys_def)

lemma validate_directive_attrs_passed:
  assumes "Device_validate_directive_attrs e d = Inr u"
  shows "\<forall>key\<in>referenced_keys e d. key \<in> dom (attrs d)"
proof (rule ccontr)
  assume "\<not> (\<forall>key\<in>referenced_keys e d. key \<in> dom (attrs d))"
  then have "\<exists>key\<in>referenced_keys e d. key \<notin> dom (attrs d)" by blast
  from validate_directive_attrs_fail [OF this] assms show False by auto
qed

subsection \<open>Running the small configuration\<close>

lemma example_env_fields:
  "SCRAPE_HELPERS example_env =
     [''ios'' \<mapsto> ''cisco_ios'', ''junos'' \<mapsto> ''juniper'', ''tsnr'' \<mapsto> ''tnsr'']"
  "validate_platform example_env = (\<lambda>p. p \<in> set [''cisco_ios'', ''juniper''])"
  "SUPPORTED_STRUCTURED_OUTPUT example_env = [''juniper'']"
  "use_state_directives example_env = [show_bgp, builtin_ping, builtin_traceroute]"
  "get_fmt_keys example_env = example_fmt_keys"
  "resolve_hostname example_env = (\<lambda>h. h = ''rtr1.example.net'')"
  "get_driver example_env = (\<lambda>p d. Inr (case d of Some drv \<Rightarrow> drv | None \<Rightarrow> ''netmiko''))"
  "app_path example_env = ''/etc/hyperglass''"
  "path_join example_env = (\<lambda>dir component. dir @ ''/'' @ component)"
  "path_exists example_env = (\<lambda>p. False)"
  "path_touch example_env =
     (\<lambda>p. if p = ''/etc/hyperglass/certs/#/#.pem'' then Inl (OSError p) else Inr ())"
  by (simp_all add: example_env_def)

lemma example_generate_id: "generate_id ''Core RTR #1'' = ''core_rtr_1''"
  by code_simp

lemma example_Device_generate_id:
  "Device_generate_id example_raw =
     Inr (''core_rtr_1'', ''Core RTR #1'', example_raw\<lparr>raw_name := None, raw_display_name := None\<rparr>)"
  by (simp add: Device_generate_id_def Let_def example_raw_def example_generate_id)

lemma example_directive_fields:
  "directive_id show_bgp = ''show-bgp''"
  "directive_id builtin_ping = ''__hyperglass_cisco_ios_ping__''"
  "directive_id builtin_traceroute = ''__hyperglass_cisco_ios_traceroute__''"
  "builtin_platforms show_bgp = []"
  "builtin_platforms builtin_ping = [''cisco_ios'']"
  "builtin_platforms builtin_traceroute = [''cisco_ios'']"
  "rules show_bgp = [\<lparr> commands = [''show bgp {target} vrf {vrf}''] \<rparr>]"
  "rules builtin_ping = [\<lparr> commands = [''ping {target} source {source}''] \<rparr>]"
  "rules builtin_traceroute = [\<lparr> commands = [''traceroute {target}''] \<rparr>]"
  "plugins show_bgp = [''bgp_route.py'', ''remove_command.py'']"
  "plugins builtin_ping = [''remove_command.py'']"
  "plugins builtin_traceroute = []"
  by (simp_all add: show_bgp_def builtin_ping_def builtin_traceroute_def)

lemma example_resolve_directives:
  "resolve_directives example_env ''cisco_ios'' [Str ''show-bgp''] =
     Inr [show_bgp, builtin_ping, builtin_traceroute]"
  by (simp add: resolve_directives_def DirectiveOptions_def merged_options_def
        string_directive_ids_def startswith_def filter_by_ids_def device_builtins_def
        directives_add_def example_env_fields example_directive_fields)

lemma example_validate_device:
  "validate_device example_env nm (example_raw\<lparr>raw_name := None, raw_display_name := None\<rparr>) =
     Inr (''cisco_ios'', [show_bgp, builtin_ping, builtin_traceroute])"
  by (simp add: validate_device_def rewrite_platform_def example_env_fields example_raw_def
        example_resolve_directives)

lemma example_Device_model_init:
  "Device_model_init example_env ''core_rtr_1'' ''Core RTR #1''
     (example_raw\<lparr>raw_name := None, raw_display_name := None\<rparr>) = Inr example_device"
  by (simp add: Device_model_init_def example_validate_device)
     (simp add: example_raw_def example_device_def validate_address_def
        validate_structured_output_def validate_driver_def validate_ssl_def example_env_fields)

lemma example_attr_keys: "attr_keys example_env example_device = [''vrf'', ''source'']"
  by (simp add: attr_keys_def directive_commands_def example_device_def example_env_fields
        example_directive_fields example_fmt_keys_def)

lemma example_referenced_keys: "referenced_keys example_env example_device = {''vrf'', ''source''}"
  using set_attr_keys [of example_env example_device] by (simp add: example_attr_keys)

lemma example_attrs: "attrs example_device = [''vrf'' \<mapsto> ''default'', ''source'' \<mapsto> ''Loopback0'']"
  by (simp add: example_device_def)

lemma example_name: "name example_device = ''Core RTR #1''"
  by (simp add: example_device_def)

lemma example_Device_init: "Device_init example_env example_raw = Inr example_device"
  by (simp add: Device_init_def example_Device_generate_id example_Device_model_init
        Device_validate_directive_attrs_def example_attr_keys example_attrs)

text \<open>
  C1. Once the id is generated and the fields are validated (so the directives are
  resolved), a referenced key other than \<open>target\<close> that is missing from \<open>attrs\<close> makes
  the construction fail with a \<open>ConfigError\<close> whose arguments are the device's name and
  a missing key; and when every referenced key is present, the check passes and the
  device is built.
\<close>

theorem attrs_validation:
  assumes "Device_generate_id kwargs = Inr (ident, nm, vals)"
    and "Device_model_init e ident nm vals = Inr d"
  shows "((\<exists>key\<in>referenced_keys e d. key \<notin> dom (attrs d)) \<longrightarrow>
            (\<exists>key\<in>referenced_keys e d. key \<notin> dom (attrs d) \<and>
               Device_init e kwargs =
                 Inl (ConfigError missing_attr_message [(''d'', nm), (''a'', key)]))) \<and>
         ((\<forall>key\<in>referenced_keys e d. key \<in> dom (attrs d)) \<longrightarrow>
            Device_validate_directive_attrs e d = Inr () \<and> Device_init e kwargs = Inr d)"
proof (intro conjI impI)
  assume "\<exists>key\<in>referenced_keys e d. key \<notin> dom (attrs d)"
  from validate_directive_attrs_fail [OF this] Device_model_init_name [OF assms(2)]
  show "\<exists>key\<in>referenced_keys e d. key \<notin> dom (attrs d) \<and>
          Device_init e kwargs = Inl (ConfigError missing_attr_message [(''d'', nm), (''a'', key)])"
    using assms by (auto simp: Device_init_def)
next
  assume present: "\<forall>key\<in>referenced_keys e d. key \<in> dom (attrs d)"
  then show "Device_validate_directive_attrs e d = Inr ()"
    by (rule validate_directive_attrs_pass)
  with assms show "Device_init e kwargs = Inr d"
    by (simp add: Device_init_def)
qed

theorem attrs_validation_witness:
  "Device_init example_env (example_raw\<lparr>raw_attrs := [''vrf'' \<mapsto> ''default'']\<rparr>) =
     Inl (ConfigError missing_attr_message [(''d'', ''Core RTR #1''), (''a'', ''source'')]) \<and>
   Device_init example_env example_raw = Inr example_device"
proof -
  note gen = example_Device_generate_id
  note model = example_Device_model_init
  have keys: "referenced_keys example_env (example_device\<lparr>attrs := [''vrf'' \<mapsto> ''default'']\<rparr>) =
      {''vrf'', ''source''}"
    by (simp add: referenced_keys_attrs example_referenced_keys)
  from attrs_validation [OF Device_generate_id_attrs [OF gen] Device_model_init_attrs [OF model],
      of "[''vrf'' \<mapsto> ''default'']"]
  have "Device_init example_env (example_raw\<lparr>raw_attrs := [''vrf'' \<mapsto> ''default'']\<rparr>) =
     Inl (ConfigError missing_attr_message [(''d'', ''Core RTR #1''), (''a'', ''source'')])"
    unfolding keys by simp
  moreover from attrs_validation [OF gen model]
  have "Device_init example_env example_raw = Inr example_device"
    unfolding example_referenced_keys by (simp add: example_attrs)
  ultimately show ?thesis by simp
qed

text \<open>
  C10. The check of the attributes looks in one direction only: when a device is built
  from a definition, it is built as well from the definition with any further
  attributes added, and differs in its \<open>attrs\<close> alone.
\<close>

theorem extra_attrs_accepted:
  assumes "Device_init e kwargs = Inr d"
  shows "Device_init e (kwargs\<lparr>raw_attrs := raw_attrs kwargs ++ extra\<rparr>) =
           Inr (d\<lparr>attrs := attrs d ++ extra\<rparr>)"
proof -
  from assms obtain ident nm vals u where
    gen: "Device_generate_id kwargs = Inr (ident, nm, vals)" and
    model: "Device_model_init e ident nm vals = Inr d" and
    valid: "Device_validate_directive_attrs e d = Inr u"
    by (auto simp: Device_init_def split: sum.splits prod.splits)
  have same: "attrs d = raw_attrs kwargs"
    using Device_model_init_raw_attrs [OF model] Device_generate_id_raw_attrs [OF gen] by simp
  let ?d = "d\<lparr>attrs := attrs d ++ extra\<rparr>"
  have "\<forall>key\<in>referenced_keys e ?d. key \<in> dom (attrs ?d)"
    using validate_directive_attrs_passed [OF valid] by (auto simp: referenced_keys_attrs)
  then have "Device_validate_directive_attrs e ?d = Inr ()"
    by (rule validate_directive_attrs_pass)
  with Device_generate_id_attrs [OF gen, of "raw_attrs kwargs ++ extra"]
    Device_model_init_attrs [OF model, of "raw_attrs kwargs ++ extra"]
  show ?thesis by (simp add: Device_init_def same)
qed

theorem extra_attrs_accepted_witness:
  "Device_init example_env
     (example_raw\<lparr>raw_attrs := raw_attrs example_raw ++ [''site'' \<mapsto> ''fra1'', ''vrf'' \<mapsto> ''blue'']\<rparr>) =
   Inr (example_device\<lparr>attrs := attrs example_device ++ [''site'' \<mapsto> ''fra1'', ''vrf'' \<mapsto> ''blue'']\<rparr>)"
  by (rule extra_attrs_accepted [OF example_Device_init])

subsection \<open>Platform aliases\<close>

lemma rewrite_platform_alias:
  "SCRAPE_HELPERS e alias = Some canonical \<Longrightarrow> rewrite_platform e alias = canonical"
  by (simp add: rewrite_platform_def)

lemma Device_generate_id_platform:
  "Device_generate_id (kwargs\<lparr>raw_platform := p\<rparr>) =
     (case Device_generate_id kwargs of
        Inl err \<Rightarrow> Inl err
      | Inr (ident, nm, vals) \<Rightarrow> Inr (ident, nm, vals\<lparr>raw_platform := p\<rparr>))"
  by (simp add: Device_generate_id_def Let_def split: option.splits)

lemma validate_device_same_platform:
  assumes "rewrite_platform e p = rewrite_platform e q"
  shows "validate_device e nm (vals\<lparr>raw_platform := Some p\<rparr>) =
         validate_device e nm (vals\<lparr>raw_platform := Some q\<rparr>)"
  using assms by (simp add: validate_device_def Let_def split: sum.splits)

lemma Device_model_init_same_platform:
  assumes "rewrite_platform e p = rewrite_platform e q"
  shows "Device_model_init e ident nm (vals\<lparr>raw_platform := Some p\<rparr>) =
         Device_model_init e ident nm (vals\<lparr>raw_platform := Some q\<rparr>)"
  using validate_device_same_platform [OF assms, of nm vals]
  by (simp add: Device_model_init_def split: sum.splits prod.splits)

lemma validate_device_platform:
  "validate_device e nm vals = Inr (pf, ds) \<Longrightarrow>
     \<exists>p. raw_platform vals = Some p \<and> pf = rewrite_platform e p"
  by (auto simp: validate_device_def Let_def split: option.splits if_splits sum.splits)

lemma Device_model_init_platform:
  "Device_model_init e ident nm vals = Inr d \<Longrightarrow>
     \<exists>p. raw_platform vals = Some p \<and> platform d = rewrite_platform e p"
  by (auto simp: Device_model_init_def split: sum.splits prod.splits dest: validate_device_platform)

lemma validate_device_supported:
  "validate_device e nm vals = Inr (pf, ds) \<Longrightarrow> validate_platform e pf"
  by (auto simp: validate_device_def Let_def split: option.splits if_splits sum.splits)

lemma Device_model_init_supported:
  "Device_model_init e ident nm vals = Inr d \<Longrightarrow> validate_platform e (platform d)"
  by (auto simp: Device_model_init_def split: sum.splits prod.splits dest: validate_device_supported)

lemma Device_generate_id_raw_platform:
  "Device_generate_id kwargs = Inr (ident, nm, vals) \<Longrightarrow> raw_platform vals = raw_platform kwargs"
  by (auto simp: Device_generate_id_def Let_def split: option.splits)

lemma Device_init_platform:
  assumes "Device_init e kwargs = Inr d"
  shows "\<exists>p. raw_platform kwargs = Some p \<and> platform d = rewrite_platform e p"
proof -
  from assms obtain ident nm vals where
    gen: "Device_generate_id kwargs = Inr (ident, nm, vals)" and
    model: "Device_model_init e ident nm vals = Inr d"
    by (auto simp: Device_init_def split: sum.splits prod.splits)
  from Device_model_init_platform [OF model] Device_generate_id_raw_platform [OF gen]
  show ?thesis by simp
qed

text \<open>
  C4. For a key of the alias table whose value is canonical, that is, no key of the
  table itself, the definition that declares the alias and the one that declares the
  canonical value give the same result, error or device; the rewrite comes before the
  check of support, so a device that is built has the table's value as its platform,
  and that platform is supported.
\<close>

theorem alias_resolves_as_canonical:
  assumes "SCRAPE_HELPERS e alias = Some canonical"
    and "SCRAPE_HELPERS e canonical = None"
  shows "Device_init e (kwargs\<lparr>raw_platform := Some alias\<rparr>) =
           Device_init e (kwargs\<lparr>raw_platform := Some canonical\<rparr>) \<and>
         (\<forall>d. Device_init e (kwargs\<lparr>raw_platform := Some alias\<rparr>) = Inr d \<longrightarrow>
                platform d = canonical \<and> validate_platform e canonical) \<and>
         (\<not> validate_platform e canonical \<and> raw_name kwargs \<noteq> None \<longrightarrow>
            Device_init e (kwargs\<lparr>raw_platform := Some alias\<rparr>) =
              Inl (UnsupportedDevice canonical))"
proof -
  have fixed: "rewrite_platform e canonical = canonical"
    using assms(2) by (simp add: rewrite_platform_def)
  have same: "rewrite_platform e alias = rewrite_platform e canonical"
    using assms(1) fixed by (simp add: rewrite_platform_alias)
  have eq: "Device_init e (kwargs\<lparr>raw_platform := Some alias\<rparr>) =
           Device_init e (kwargs\<lparr>raw_platform := Some canonical\<rparr>)"
    by (simp add: Device_init_def Device_generate_id_platform
          Device_model_init_same_platform [OF same] split: sum.splits prod.splits)
  have built: "platform d = canonical \<and> validate_platform e canonical"
    if "Device_init e (kwargs\<lparr>raw_platform := Some alias\<rparr>) = Inr d" for d
  proof -
    from Device_init_platform [OF that] have pf: "platform d = canonical"
      by (simp add: same fixed)
    from that obtain ident nm vals where
      "Device_model_init e ident nm vals = Inr d"
      by (auto simp: Device_init_def split: sum.splits prod.splits)
    then have "validate_platform e (platform d)"
      by (rule Device_model_init_supported)
    with pf show ?thesis by simp
  qed
  have unsupported: "Device_init e (kwargs\<lparr>raw_platform := Some alias\<rparr>) =
      Inl (UnsupportedDevice canonical)"
    if "\<not> validate_platform e canonical \<and> raw_name kwargs \<noteq> None"
    using that same fixed
    by (auto simp: Device_init_def Device_generate_id_def Device_model_init_def
          validate_device_def Let_def split: option.splits)
  from eq built unsupported show ?thesis by blast
qed

lemma juniper_Device_init:
  "Device_init example_env (example_raw\<lparr>raw_platform := Some ''juniper''\<rparr>) = Inr juniper_device"
proof -
  let ?vals = "example_raw\<lparr>raw_platform := Some ''juniper'', raw_name := None,
                            raw_display_name := None\<rparr>"
  have gen: "Device_generate_id (example_raw\<lparr>raw_platform := Some ''juniper''\<rparr>) =
      Inr (''core_rtr_1'', ''Core RTR #1'', ?vals)"
    by (simp add: Device_generate_id_def Let_def example_raw_def example_generate_id)
  have resolved: "resolve_directives example_env ''juniper'' [Str ''show-bgp''] = Inr [show_bgp]"
    by (simp add: resolve_directives_def DirectiveOptions_def merged_options_def
          string_directive_ids_def startswith_def filter_by_ids_def device_builtins_def
          directives_add_def example_env_fields example_directive_fields)
  have dev: "validate_device example_env ''Core RTR #1'' ?vals = Inr (''juniper'', [show_bgp])"
    by (simp add: validate_device_def rewrite_platform_def example_env_fields example_raw_def
          resolved)
  have model: "Device_model_init example_env ''core_rtr_1'' ''Core RTR #1'' ?vals =
      Inr juniper_device"
    by (simp add: Device_model_init_def dev)
       (simp add: example_raw_def example_device_def juniper_device_def validate_address_def
          validate_structured_output_def validate_driver_def validate_ssl_def example_env_fields)
  have keys: "attr_keys example_env juniper_device = [''vrf'']"
    by (simp add: attr_keys_def directive_commands_def juniper_device_def example_env_fields
          example_directive_fields example_fmt_keys_def)
  have "attrs juniper_device = [''vrf'' \<mapsto> ''default'', ''source'' \<mapsto> ''Loopback0'']"
    by (simp add: juniper_device_def example_device_def)
  then show ?thesis
    by (simp add: Device_init_def gen model Device_validate_directive_attrs_def keys)
qed

theorem alias_resolves_as_canonical_witness:
  "Device_init example_env (example_raw\<lparr>raw_platform := Some ''cisco_ios''\<rparr>) = Inr example_device \<and>
   platform example_device = ''cisco_ios'' \<and>
   Device_init example_env (example_raw\<lparr>raw_platform := Some ''junos''\<rparr>) = Inr juniper_device \<and>
   platform juniper_device = ''juniper'' \<and>
   Device_init example_env (example_raw\<lparr>raw_platform := Some ''tsnr''\<rparr>) =
     Inl (UnsupportedDevice ''tnsr'')"
proof -
  have ios: "SCRAPE_HELPERS example_env ''ios'' = Some ''cisco_ios''"
    "SCRAPE_HELPERS example_env ''cisco_ios'' = None"
    by (simp_all add: example_env_fields)
  have junos: "SCRAPE_HELPERS example_env ''junos'' = Some ''juniper''"
    "SCRAPE_HELPERS example_env ''juniper'' = None"
    by (simp_all add: example_env_fields)
  have tsnr: "SCRAPE_HELPERS example_env ''tsnr'' = Some ''tnsr''"
    "SCRAPE_HELPERS example_env ''tnsr'' = None"
    by (simp_all add: example_env_fields)
  have raw: "example_raw\<lparr>raw_platform := Some ''ios''\<rparr> = example_raw"
    by (simp add: example_raw_def)
  have first: "Device_init example_env (example_raw\<lparr>raw_platform := Some ''cisco_ios''\<rparr>) =
      Inr example_device"
    using alias_resolves_as_canonical [OF ios, of example_raw]
    unfolding raw by (simp add: example_Device_init)
  have second: "Device_init example_env (example_raw\<lparr>raw_platform := Some ''junos''\<rparr>) =
      Inr juniper_device"
    using alias_resolves_as_canonical [OF junos, of example_raw]
    by (simp add: juniper_Device_init)
  have third: "Device_init example_env (example_raw\<lparr>raw_platform := Some ''tsnr''\<rparr>) =
      Inl (UnsupportedDevice ''tnsr'')"
  proof -
    have named: "raw_name example_raw \<noteq> None"
      by (simp add: example_raw_def)
    have unsupported: "\<not> validate_platform example_env ''tnsr''"
      by (simp add: example_env_fields)
    from alias_resolves_as_canonical [OF tsnr, of example_raw] named unsupported
    show ?thesis by blast
  qed
  from first second third show ?thesis
    by (simp add: example_device_def juniper_device_def)
qed

subsection \<open>Structured output\<close>

lemma Device_model_init_structured_output:
  "Device_model_init e ident nm vals = Inr d \<Longrightarrow>
     validate_structured_output e (name d) (platform d) (raw_structured_output vals) =
       Inr (structured_output d)"
  by (auto simp: Device_model_init_def split: sum.splits prod.splits)

lemma Device_generate_id_raw_structured_output:
  "Device_generate_id kwargs = Inr (ident, nm, vals) \<Longrightarrow>
     raw_structured_output vals = raw_structured_output kwargs"
  by (auto simp: Device_generate_id_def Let_def split: option.splits)

lemma Device_init_structured_output:
  assumes "Device_init e kwargs = Inr d"
  shows "validate_structured_output e (name d) (platform d) (raw_structured_output kwargs) =
           Inr (structured_output d)"
proof -
  from assms obtain ident nm vals where
    gen: "Device_generate_id kwargs = Inr (ident, nm, vals)" and
    model: "Device_model_init e ident nm vals = Inr d"
    by (auto simp: Device_init_def split: sum.splits prod.splits)
  from Device_model_init_structured_output [OF model]
    Device_generate_id_raw_structured_output [OF gen]
  show ?thesis by simp
qed

lemma Device_init_structured_output_fails:
  assumes "Device_generate_id kwargs = Inr (ident, nm, vals)"
    and "validate_device e nm vals = Inr (pf, ds)"
    and "validate_address e nm (raw_address vals) = Inr a"
    and "validate_ssl e nm (raw_ssl vals) = Inr s"
    and "raw_structured_output kwargs = Some True"
    and "pf \<notin> set (SUPPORTED_STRUCTURED_OUTPUT e)"
  shows "Device_init e kwargs = Inl (ConfigError structured_output_message [(''d'', nm), (''p'', pf)])"
  using assms Device_generate_id_raw_structured_output [OF assms(1)]
  by (simp add: Device_init_def Device_model_init_def validate_structured_output_def)

text \<open>
  C7. The validator \<open>validate_structured_output\<close>: unset on a platform that supports
  structured output gives true; true on a platform that does not is a \<open>ConfigError\<close>
  naming the device and the platform; unset on such a platform gives false; false stays
  false. A device that is built holds the validator's value for its canonical platform,
  and a definition with the field set to true on a canonical platform without support
  fails with that \<open>ConfigError\<close> once the validators before it (of the device, of the
  address and of \<open>ssl\<close>) have passed.
\<close>

theorem structured_output_resolution:
  "(v = None \<and> pf \<in> set (SUPPORTED_STRUCTURED_OUTPUT e) \<longrightarrow>
      validate_structured_output e nm pf v = Inr True) \<and>
   (v = Some True \<and> pf \<notin> set (SUPPORTED_STRUCTURED_OUTPUT e) \<longrightarrow>
      validate_structured_output e nm pf v =
        Inl (ConfigError structured_output_message [(''d'', nm), (''p'', pf)])) \<and>
   (v = None \<and> pf \<notin> set (SUPPORTED_STRUCTURED_OUTPUT e) \<longrightarrow>
      validate_structured_output e nm pf v = Inr False) \<and>
   (v = Some False \<longrightarrow> validate_structured_output e nm pf v = Inr False) \<and>
   (v = Some True \<and> pf \<in> set (SUPPORTED_STRUCTURED_OUTPUT e) \<longrightarrow>
      validate_structured_output e nm pf v = Inr True) \<and>
   (Device_init e kwargs = Inr d \<longrightarrow>
      validate_structured_output e (name d) (platform d) (raw_structured_output kwargs) =
        Inr (structured_output d)) \<and>
   (Device_generate_id kwargs = Inr (ident, nm, vals) \<and>
    validate_device e nm vals = Inr (pf, ds) \<and>
    validate_address e nm (raw_address vals) = Inr a \<and>
    validate_ssl e nm (raw_ssl vals) = Inr s \<and>
    raw_structured_output kwargs = Some True \<and>
    pf \<notin> set (SUPPORTED_STRUCTURED_OUTPUT e) \<longrightarrow>
      Device_init e kwargs =
        Inl (ConfigError structured_output_message [(''d'', nm), (''p'', pf)]))"
  using Device_init_structured_output [of e kwargs d]
    Device_init_structured_output_fails [of kwargs ident nm vals e pf ds a s]
  by (simp add: validate_structured_output_def)

lemma Device_generate_id_structured_output:
  "Device_generate_id kwargs = Inr (ident, nm, vals) \<Longrightarrow>
     Device_generate_id (kwargs\<lparr>raw_structured_output := v\<rparr>) =
       Inr (ident, nm, vals\<lparr>raw_structured_output := v\<rparr>)"
  by (auto simp: Device_generate_id_def Let_def split: option.splits)

lemma validate_device_structured_output:
  "validate_device e nm (vals\<lparr>raw_structured_output := v\<rparr>) = validate_device e nm vals"
  by (simp add: validate_device_def Let_def split: option.splits)

theorem structured_output_resolution_witness:
  "validate_structured_output example_env ''r1'' ''juniper'' None = Inr True \<and>
   validate_structured_output example_env ''r1'' ''cisco_ios'' None = Inr False \<and>
   validate_structured_output example_env ''r1'' ''juniper'' (Some False) = Inr False \<and>
   validate_structured_output example_env ''r1'' ''cisco_ios'' (Some True) =
     Inl (ConfigError structured_output_message [(''d'', ''r1''), (''p'', ''cisco_ios'')]) \<and>
   Device_init example_env (example_raw\<lparr>raw_structured_output := Some True\<rparr>) =
     Inl (ConfigError structured_output_message [(''d'', ''Core RTR #1''), (''p'', ''cisco_ios'')]) \<and>
   validate_structured_output example_env (name example_device) (platform example_device)
     (raw_structured_output example_raw) = Inr (structured_output example_device)"
proof -
  note sup = example_env_fields(3)
  have a: "validate_structured_output example_env ''r1'' ''juniper'' None = Inr True"
    using structured_output_resolution [of None "''juniper''" example_env "''r1''"]
    by (simp add: sup)
  have b: "validate_structured_output example_env ''r1'' ''cisco_ios'' None = Inr False"
    using structured_output_resolution [of None "''cisco_ios''" example_env "''r1''"]
    by (simp add: sup)
  have c: "validate_structured_output example_env ''r1'' ''juniper'' (Some False) = Inr False"
    using structured_output_resolution [of "Some False" "''juniper''" example_env "''r1''"]
    by simp
  have d: "validate_structured_output example_env ''r1'' ''cisco_ios'' (Some True) =
     Inl (ConfigError structured_output_message [(''d'', ''r1''), (''p'', ''cisco_ios'')])"
    using structured_output_resolution [of "Some True" "''cisco_ios''" example_env "''r1''"]
    by (simp add: sup)
  have gen: "Device_generate_id (example_raw\<lparr>raw_structured_output := Some True\<rparr>) =
      Inr (''core_rtr_1'', ''Core RTR #1'',
           example_raw\<lparr>raw_name := None, raw_display_name := None,
                        raw_structured_output := Some True\<rparr>)"
    by (rule Device_generate_id_structured_output [OF example_Device_generate_id])
  have f: "Device_init example_env (example_raw\<lparr>raw_structured_output := Some True\<rparr>) =
     Inl (ConfigError structured_output_message [(''d'', ''Core RTR #1''), (''p'', ''cisco_ios'')])"
    using structured_output_resolution [of "Some True" "''cisco_ios''" example_env "''Core RTR #1''"
        "example_raw\<lparr>raw_structured_output := Some True\<rparr>" _ "''core_rtr_1''"
        "example_raw\<lparr>raw_name := None, raw_display_name := None,
                        raw_structured_output := Some True\<rparr>"
        "[show_bgp, builtin_ping, builtin_traceroute]" "Hostname ''rtr1.example.net''" None]
    by (simp add: gen validate_device_structured_output example_validate_device sup)
       (simp add: validate_address_def validate_ssl_def example_raw_def example_env_fields)
  have g: "validate_structured_output example_env (name example_device) (platform example_device)
     (raw_structured_output example_raw) = Inr (structured_output example_device)"
    using structured_output_resolution [of _ _ example_env _ example_raw example_device]
    by (simp add: example_Device_init)
  from a b c d f g show ?thesis by simp
qed

subsection \<open>The name of a device\<close>

lemma validate_device_any_name:
  "validate_device e nm vals = Inr r \<Longrightarrow> validate_device e nm' vals = Inr r"
  by (auto simp: validate_device_def Let_def split: option.splits if_splits sum.splits)

lemma validate_address_any_name:
  "validate_address e nm v = Inr r \<Longrightarrow> validate_address e nm' v = Inr r"
  by (auto simp: validate_address_def split: address.splits if_splits)

lemma validate_structured_output_any_name:
  "validate_structured_output e nm pf v = Inr r \<Longrightarrow> validate_structured_output e nm' pf v = Inr r"
  by (auto simp: validate_structured_output_def split: if_splits)

lemma Device_model_init_steps:
  assumes "Device_model_init e ident nm vals = Inr d"
  obtains pf ds a checked so drv where
    "validate_device e nm vals = Inr (pf, ds)"
    "validate_address e nm (raw_address vals) = Inr a"
    "validate_ssl e nm (raw_ssl vals) = Inr checked"
    "validate_structured_output e nm pf (raw_structured_output vals) = Inr so"
    "validate_driver e pf (raw_driver vals) = Inr drv"
    "d = \<lparr> device_id = ident, name = nm, address = a,
               network = raw_network vals, credential = raw_credential vals,
               proxy = raw_proxy vals, display_name = raw_display_name vals,
               port = (case raw_port vals of None \<Rightarrow> 22 | Some n \<Rightarrow> n),
               ssl = checked,
               platform = pf, directives = ds, structured_output = so, driver = drv,
               attrs = raw_attrs vals \<rparr>"
  using assms by (auto simp: Device_model_init_def split: sum.splits prod.splits)

lemma Device_model_init_any_name:
  assumes "Device_model_init e ident nm vals = Inr d"
    and "validate_ssl e nm' (raw_ssl vals) = Inr checked'"
  shows "Device_model_init e ident' nm' vals =
           Inr (d\<lparr>device_id := ident', name := nm', ssl := checked'\<rparr>)"
proof -
  from assms(1) obtain pf ds a checked so drv where
    steps: "validate_device e nm vals = Inr (pf, ds)"
      "validate_address e nm (raw_address vals) = Inr a"
      "validate_structured_output e nm pf (raw_structured_output vals) = Inr so"
      "validate_driver e pf (raw_driver vals) = Inr drv"
    and d: "d = \<lparr> device_id = ident, name = nm, address = a,
               network = raw_network vals, credential = raw_credential vals,
               proxy = raw_proxy vals, display_name = raw_display_name vals,
               port = (case raw_port vals of None \<Rightarrow> 22 | Some n \<Rightarrow> n),
               ssl = checked,
               platform = pf, directives = ds, structured_output = so, driver = drv,
               attrs = raw_attrs vals \<rparr>"
    by (rule Device_model_init_steps)
  from steps(1) have "validate_device e nm' vals = Inr (pf, ds)"
    by (rule validate_device_any_name)
  moreover from steps(2) have "validate_address e nm' (raw_address vals) = Inr a"
    by (rule validate_address_any_name)
  moreover from steps(3)
  have "validate_structured_output e nm' pf (raw_structured_output vals) = Inr so"
    by (rule validate_structured_output_any_name)
  ultimately show ?thesis
    using steps(4) assms(2) by (simp add: Device_model_init_def d)
qed

lemma Device_model_init_ssl_fails:
  assumes "Device_model_init e ident nm vals = Inr d"
    and "validate_ssl e nm' (raw_ssl vals) = Inl err"
  shows "Device_model_init e ident' nm' vals = Inl err"
proof -
  from assms(1) obtain pf ds a where
    steps: "validate_device e nm vals = Inr (pf, ds)"
      "validate_address e nm (raw_address vals) = Inr a"
    by (rule Device_model_init_steps)
  from steps(1) have "validate_device e nm' vals = Inr (pf, ds)"
    by (rule validate_device_any_name)
  moreover from steps(2) have "validate_address e nm' (raw_address vals) = Inr a"
    by (rule validate_address_any_name)
  ultimately show ?thesis
    using assms(2) by (simp add: Device_model_init_def)
qed

lemma referenced_keys_identity:
  "referenced_keys e (d\<lparr>device_id := i, name := n, ssl := s\<rparr>) = referenced_keys e d"
  by (simp add: referenced_keys_def)

lemma referenced_keys_renamed:
  "referenced_keys e (d\<lparr>device_id := i, name := n\<rparr>) = referenced_keys e d"
  by (simp add: referenced_keys_def)

lemma Device_init_parts:
  assumes "Device_init e kwargs = Inr d" and "raw_display_name kwargs = None"
  obtains ident nm u where
    "Device_generate_id kwargs =
       Inr (ident, nm, kwargs\<lparr>raw_name := None, raw_display_name := None\<rparr>)"
    "Device_model_init e ident nm (kwargs\<lparr>raw_name := None, raw_display_name := None\<rparr>) = Inr d"
    "Device_validate_directive_attrs e d = Inr u"
  using assms
  by (auto simp: Device_init_def Device_generate_id_def Let_def
        split: sum.splits prod.splits option.splits)

lemma Device_generate_id_renamed:
  "raw_display_name kwargs = None \<Longrightarrow>
     Device_generate_id (kwargs\<lparr>raw_name := Some nm'\<rparr>) =
       Inr (generate_id nm', nm', kwargs\<lparr>raw_name := None, raw_display_name := None\<rparr>)"
  by (simp add: Device_generate_id_def Let_def)

lemma Device_init_renamed:
  assumes "Device_init e kwargs = Inr d" and "raw_display_name kwargs = None"
    and "validate_ssl e nm' (raw_ssl kwargs) = Inr checked'"
  shows "Device_init e (kwargs\<lparr>raw_name := Some nm'\<rparr>) =
           Inr (d\<lparr>device_id := generate_id nm', name := nm', ssl := checked'\<rparr>)"
proof -
  let ?rest = "kwargs\<lparr>raw_name := None, raw_display_name := None\<rparr>"
  let ?d = "d\<lparr>device_id := generate_id nm', name := nm', ssl := checked'\<rparr>"
  from assms(1,2) obtain ident nm u where
    model: "Device_model_init e ident nm ?rest = Inr d" and
    valid: "Device_validate_directive_attrs e d = Inr u"
    by (rule Device_init_parts)
  have model': "Device_model_init e (generate_id nm') nm' ?rest = Inr ?d"
    using Device_model_init_any_name [OF model, of nm' checked' "generate_id nm'"] assms(3)
    by simp
  have "\<forall>key\<in>referenced_keys e ?d. key \<in> dom (attrs ?d)"
    using validate_directive_attrs_passed [OF valid] by (simp add: referenced_keys_identity)
  then have "Device_validate_directive_attrs e ?d = Inr ()"
    by (rule validate_directive_attrs_pass)
  with Device_generate_id_renamed [OF assms(2), of nm'] model' show ?thesis
    by (simp add: Device_init_def)
qed

lemma Device_init_renamed_ssl_fails:
  assumes "Device_init e kwargs = Inr d" and "raw_display_name kwargs = None"
    and "validate_ssl e nm' (raw_ssl kwargs) = Inl err"
  shows "Device_init e (kwargs\<lparr>raw_name := Some nm'\<rparr>) = Inl err"
proof -
  let ?rest = "kwargs\<lparr>raw_name := None, raw_display_name := None\<rparr>"
  from assms(1,2) obtain ident nm where
    model: "Device_model_init e ident nm ?rest = Inr d"
    by (rule Device_init_parts)
  have "Device_model_init e (generate_id nm') nm' ?rest = Inl err"
    using Device_model_init_ssl_fails [OF model, of nm' err "generate_id nm'"] assms(3)
    by simp
  with Device_generate_id_renamed [OF assms(2), of nm'] show ?thesis
    by (simp add: Device_init_def)
qed

text \<open>
  C6, as amended. A definition without \<open>name\<close> fails with \<open>ValueError\<close> "name is required.",
  whatever \<open>display_name\<close> holds. No name is rejected for the id it turns into: when a
  definition without \<open>display_name\<close> builds a device, the same definition under any other
  name builds a device with the id of that name, also when that id is empty, as long as
  the certificate default of \<open>ssl\<close> succeeds for the new name; and when that default
  fails, the construction fails with its error.
\<close>

theorem name_required:
  "(raw_name kwargs = None \<longrightarrow> Device_init e kwargs = Inl (ValueError ''name is required.'')) \<and>
   (Device_init e kwargs = Inr d \<and> raw_display_name kwargs = None \<and>
    validate_ssl e nm' (raw_ssl kwargs) = Inr checked' \<longrightarrow>
      Device_init e (kwargs\<lparr>raw_name := Some nm'\<rparr>) =
        Inr (d\<lparr>device_id := generate_id nm', name := nm', ssl := checked'\<rparr>)) \<and>
   (Device_init e kwargs = Inr d \<and> raw_display_name kwargs = None \<and>
    validate_ssl e nm' (raw_ssl kwargs) = Inl err \<longrightarrow>
      Device_init e (kwargs\<lparr>raw_name := Some nm'\<rparr>) = Inl err)"
proof (intro conjI impI)
  assume "raw_name kwargs = None"
  then show "Device_init e kwargs = Inl (ValueError ''name is required.'')"
    by (simp add: Device_init_def Device_generate_id_def Let_def)
next
  assume "Device_init e kwargs = Inr d \<and> raw_display_name kwargs = None \<and>
    validate_ssl e nm' (raw_ssl kwargs) = Inr checked'"
  then show "Device_init e (kwargs\<lparr>raw_name := Some nm'\<rparr>) =
      Inr (d\<lparr>device_id := generate_id nm', name := nm', ssl := checked'\<rparr>)"
    using Device_init_renamed [of e kwargs d nm' checked'] by blast
next
  assume "Device_init e kwargs = Inr d \<and> raw_display_name kwargs = None \<and>
    validate_ssl e nm' (raw_ssl kwargs) = Inl err"
  then show "Device_init e (kwargs\<lparr>raw_name := Some nm'\<rparr>) = Inl err"
    using Device_init_renamed_ssl_fails [of e kwargs d nm' err] by blast
qed

lemma example_ssl: "raw_ssl example_raw = None"
  by (simp add: example_raw_def)

lemma example_display_name: "raw_display_name example_raw = None"
  by (simp add: example_raw_def)

lemma example_validate_ssl: "validate_ssl example_env nm (raw_ssl example_raw) = Inr None"
  by (simp add: example_ssl validate_ssl_def)

lemma empty_generate_id: "generate_id ''#'' = []"
  by code_simp

lemma secured_fields:
  "raw_display_name secured_raw = None"
  "raw_ssl secured_raw = Some \<lparr> enable = True, cert = None \<rparr>"
  by (simp_all add: secured_raw_def example_raw_def)

lemma secured_Device_init: "Device_init example_env secured_raw = Inr secured_device"
proof -
  let ?vals = "secured_raw\<lparr>raw_name := None, raw_display_name := None\<rparr>"
  have gen: "Device_generate_id secured_raw = Inr (''core_rtr_1'', ''Core RTR #1'', ?vals)"
    by (simp add: Device_generate_id_def Let_def secured_raw_def example_raw_def
          example_generate_id)
  have dev: "validate_device example_env ''Core RTR #1'' ?vals =
      Inr (''cisco_ios'', [show_bgp, builtin_ping, builtin_traceroute])"
    by (simp add: validate_device_def rewrite_platform_def example_env_fields secured_raw_def
          example_raw_def example_resolve_directives)
  have model: "Device_model_init example_env ''core_rtr_1'' ''Core RTR #1'' ?vals =
      Inr secured_device"
    by (simp add: Device_model_init_def dev)
       (simp add: secured_raw_def secured_device_def example_raw_def example_device_def
          validate_address_def validate_structured_output_def validate_driver_def
          validate_ssl_def cert_file_def example_env_fields)
  have keys: "attr_keys example_env secured_device = [''vrf'', ''source'']"
    by (simp add: attr_keys_def directive_commands_def secured_device_def example_device_def
          example_env_fields example_directive_fields example_fmt_keys_def)
  have "attrs secured_device = [''vrf'' \<mapsto> ''default'', ''source'' \<mapsto> ''Loopback0'']"
    by (simp add: secured_device_def example_device_def)
  then show ?thesis
    by (simp add: Device_init_def gen model Device_validate_directive_attrs_def keys)
qed

lemma secured_touch_fails:
  "validate_ssl example_env ''#/#'' (Some \<lparr> enable = True, cert = None \<rparr>) =
     Inl (OSError ''/etc/hyperglass/certs/#/#.pem'')"
  by (simp add: validate_ssl_def cert_file_def example_env_fields)

theorem name_required_witness:
  "Device_init example_env (example_raw\<lparr>raw_name := None\<rparr>) = Inl (ValueError ''name is required.'') \<and>
   Device_init example_env (example_raw\<lparr>raw_name := Some ''#''\<rparr>) =
     Inr (example_device\<lparr>device_id := [], name := ''#'', ssl := None\<rparr>) \<and>
   Device_init example_env (secured_raw\<lparr>raw_name := Some ''#/#''\<rparr>) =
     Inl (OSError ''/etc/hyperglass/certs/#/#.pem'')"
proof -
  have "Device_init example_env (example_raw\<lparr>raw_name := None\<rparr>) =
      Inl (ValueError ''name is required.'')"
    using name_required [of "example_raw\<lparr>raw_name := None\<rparr>" example_env] by simp
  moreover have "Device_init example_env (example_raw\<lparr>raw_name := Some ''#''\<rparr>) =
     Inr (example_device\<lparr>device_id := [], name := ''#'', ssl := None\<rparr>)"
    using name_required [of example_raw example_env example_device "''#''" None]
    by (simp add: example_Device_init example_display_name example_validate_ssl
          empty_generate_id)
  moreover have "Device_init example_env (secured_raw\<lparr>raw_name := Some ''#/#''\<rparr>) =
     Inl (OSError ''/etc/hyperglass/certs/#/#.pem'')"
    using name_required [of secured_raw example_env secured_device "''#/#''" _
        "OSError ''/etc/hyperglass/certs/#/#.pem''"]
    by (simp add: secured_Device_init secured_fields secured_touch_fails)
  ultimately show ?thesis by simp
qed

text \<open>
  C6 as stated fails twice: the error for a missing name is a \<open>ValueError\<close>, not a
  \<open>ConfigError\<close>, and the name \<open>#\<close>, empty after stripping, builds a device whose id is
  empty.
\<close>

theorem empty_id_accepted_counterexample:
  "Device_init example_env (example_raw\<lparr>raw_name := None\<rparr>) = Inl (ValueError ''name is required.'') \<and>
   \<not> is_ConfigError (ValueError ''name is required.'') \<and>
   generate_id ''#'' = [] \<and>
   Device_init example_env (example_raw\<lparr>raw_name := Some ''#''\<rparr>) =
     Inr (example_device\<lparr>device_id := [], name := ''#''\<rparr>)"
proof -
  have "Device_init example_env (example_raw\<lparr>raw_name := None\<rparr>) =
      Inl (ValueError ''name is required.'')"
    by (simp add: Device_init_def Device_generate_id_def Let_def)
  moreover have "Device_init example_env (example_raw\<lparr>raw_name := Some ''#''\<rparr>) =
      Inr (example_device\<lparr>device_id := [], name := ''#''\<rparr>)"
    using Device_init_renamed [OF example_Device_init example_display_name
        example_validate_ssl, of "''#''"]
    by (simp add: empty_generate_id) (simp add: example_device_def)
  ultimately show ?thesis
    by (simp add: empty_generate_id)
qed

subsection \<open>The public projection\<close>

text \<open>
  C9. \<open>export_api\<close> returns the three entries id, name and the network's display name,
  and nothing else; it is unchanged by any change to the other fields, and equal for
  two devices that agree on these three. The directory's \<open>export_api\<close> maps it over the
  devices.
\<close>

theorem export_api_public_fields:
  "Device_export_api d =
     [(''id'', device_id d), (''name'', name d), (''network'', network_display_name (network d))] \<and>
   Device_export_api
     (d\<lparr>address := a, credential := c, proxy := p, display_name := dn, port := n, ssl := s,
        platform := pf, directives := ds, structured_output := so, driver := drv, attrs := as,
        network := (network d)\<lparr>network_name := nn\<rparr>\<rparr>) = Device_export_api d \<and>
   (device_id d = device_id d' \<and> name d = name d' \<and>
    network_display_name (network d) = network_display_name (network d') \<longrightarrow>
      Device_export_api d = Device_export_api d') \<and>
   Devices_export_api dir = map Device_export_api (objects dir)"
  by (simp add: Device_export_api_def Devices_export_api_def)

theorem export_api_public_fields_witness:
  "Device_export_api
     (example_device\<lparr>address := IPAddress ''192.0.2.1'', credential := ''secret'',
        proxy := Some ''jump'', attrs := Map.empty\<rparr>) =
   [(''id'', ''core_rtr_1''), (''name'', ''Core RTR #1''), (''network'', ''Core Network'')]"
proof -
  let ?d = "example_device\<lparr>address := IPAddress ''192.0.2.1'', credential := ''secret'',
        proxy := Some ''jump'', attrs := Map.empty\<rparr>"
  have same: "device_id ?d = device_id example_device \<and> name ?d = name example_device \<and>
    network_display_name (network ?d) = network_display_name (network example_device)"
    by simp
  from export_api_public_fields [of ?d _ _ _ _ _ _ _ _ _ _ _ _ example_device] same
  have "Device_export_api ?d = Device_export_api example_device" by blast
  moreover from export_api_public_fields [of example_device]
  have "Device_export_api example_device =
     [(''id'', ''core_rtr_1''), (''name'', ''Core RTR #1''), (''network'', ''Core Network'')]"
    by (simp add: example_device_def)
  ultimately show ?thesis by simp
qed

subsection \<open>Resolving the directives of a device\<close>




















subsection \<open>Devices with the same id\<close>

lemma ingest_all_built:
  "map (Device_init e) input_params = map Inr ds \<Longrightarrow>
     ingest e input_params (objs, hosts, idents) =
       Inr (foldl (set_add device_eq) objs ds,
            foldl (set_add (=)) hosts (map name ds),
            foldl (set_add (=)) idents (map device_id ds))"
proof (induction input_params arbitrary: ds objs hosts idents)
  case Nil
  then show ?case by simp
next
  case (Cons r rs)
  then obtain d ds' where ds: "ds = d # ds'" and d: "Device_init e r = Inr d"
    and rest: "map (Device_init e) rs = map Inr ds'"
    by (cases ds) auto
  from Cons.IH [OF rest] show ?case by (simp add: ds d)
qed

lemma set_add_device:
  "set_add device_eq objs d =
     (if \<exists>y\<in>set objs. device_id y = device_id d then objs else objs @ [d])"
  by (simp add: set_add_def device_eq_def list_ex_iff)

lemma filter_retained:
  "filter (\<lambda>d. device_id d = i) (foldl (set_add device_eq) objs ds) =
     filter (\<lambda>d. device_id d = i) objs @
     (if \<exists>y\<in>set objs. device_id y = i then []
      else (case find (\<lambda>d. device_id d = i) ds of None \<Rightarrow> [] | Some d \<Rightarrow> [d]))"
proof (induction ds arbitrary: objs)
  case Nil
  then show ?case by simp
next
  case (Cons d ds)
  show ?case
  proof (cases "\<exists>y\<in>set objs. device_id y = device_id d")
    case True
    then show ?thesis
      using Cons.IH [of objs] by (auto simp: set_add_device)
  next
    case False
    then have "filter (\<lambda>x. device_id x = device_id d) objs = []"
      by (auto simp: filter_empty_conv)
    with False show ?thesis
      using Cons.IH [of "objs @ [d]"] by (auto simp: set_add_device)
  qed
qed

lemma set_add_eq: "set_add (=) s x = (if x \<in> set s then s else s @ [x])"
  by (simp add: set_add_def list_ex_iff)

lemma set_foldl_set_add: "set (foldl (set_add (=)) s xs) = set s \<union> set xs"
  by (induction xs arbitrary: s) (auto simp: set_add_eq)

lemma distinct_foldl_set_add: "distinct s \<Longrightarrow> distinct (foldl (set_add (=)) s xs)"
  by (induction xs arbitrary: s) (auto simp: set_add_eq)

lemma sort_key_short:
  "sort_key k (case x of None \<Rightarrow> [] | Some d \<Rightarrow> [d]) = (case x of None \<Rightarrow> [] | Some d \<Rightarrow> [d])"
  by (cases x) auto

text \<open>
  C3, as amended. When every definition builds a device, the directory is built without
  an error, and for every id it holds exactly one device with that id: the first one
  built, not the last. The ids of the directory are the ids of the devices, each once.
\<close>

theorem first_device_retained:
  assumes "map (Device_init e) input_params = map Inr ds"
  shows "\<exists>dir. Devices_init e input_params = Inr dir \<and>
           (\<forall>i. filter (\<lambda>d. device_id d = i) (objects dir) =
                  (case find (\<lambda>d. device_id d = i) ds of None \<Rightarrow> [] | Some d \<Rightarrow> [d])) \<and>
           set (ids dir) = device_id ` set ds \<and> distinct (ids dir)"
proof -
  let ?objs = "foldl (set_add device_eq) [] ds"
  let ?dir = "\<lparr> ids = foldl (set_add (=)) [] (map device_id ds),
                hostnames = foldl (set_add (=)) [] (map name ds),
                objects = sort_key name ?objs \<rparr>"
  have built: "Devices_init e input_params = Inr ?dir"
    by (simp add: Devices_init_def ingest_all_built [OF assms])
  have "filter (\<lambda>d. device_id d = i) (objects ?dir) =
          (case find (\<lambda>d. device_id d = i) ds of None \<Rightarrow> [] | Some d \<Rightarrow> [d])" for i
    using filter_retained [of i "[]" ds] by (simp add: filter_sort sort_key_short)
  moreover have "set (ids ?dir) = device_id ` set ds"
    by (simp add: set_foldl_set_add)
  moreover have "distinct (ids ?dir)"
    by (simp add: distinct_foldl_set_add)
  ultimately show ?thesis using built by blast
qed

lemma twin_generate_id: "generate_id ''core rtr 1'' = ''core_rtr_1''"
  by code_simp

lemma twin_Device_init: "Device_init example_env twin_raw = Inr twin_device"
  using Device_init_renamed [OF example_Device_init example_display_name example_validate_ssl,
      of "''core rtr 1''"]
  by (simp add: twin_raw_def twin_device_def twin_generate_id)
     (simp add: example_device_def)

lemma twin_fields:
  "device_id example_device = ''core_rtr_1''" "device_id twin_device = ''core_rtr_1''"
  "name twin_device = ''core rtr 1''"
  by (simp_all add: twin_device_def example_device_def)

theorem first_device_retained_witness:
  "\<exists>dir. Devices_init example_env [example_raw, twin_raw] = Inr dir \<and>
         filter (\<lambda>d. device_id d = ''core_rtr_1'') (objects dir) = [example_device] \<and>
         set (ids dir) = {''core_rtr_1''}"
proof -
  have "map (Device_init example_env) [example_raw, twin_raw] = map Inr [example_device, twin_device]"
    by (simp add: example_Device_init twin_Device_init)
  from first_device_retained [OF this] obtain dir where
    dir: "Devices_init example_env [example_raw, twin_raw] = Inr dir" and
    kept: "\<forall>i. filter (\<lambda>d. device_id d = i) (objects dir) =
             (case find (\<lambda>d. device_id d = i) [example_device, twin_device] of
                None \<Rightarrow> [] | Some d \<Rightarrow> [d])" and
    ids: "set (ids dir) = device_id ` set [example_device, twin_device]" "distinct (ids dir)"
    by blast
  from kept have "filter (\<lambda>d. device_id d = ''core_rtr_1'') (objects dir) = [example_device]"
    by (simp add: twin_fields)
  moreover from ids have "set (ids dir) = {''core_rtr_1''}"
    by (simp add: twin_fields)
  ultimately show ?thesis using dir by blast
qed

text \<open>
  C3 as stated fails: of two definitions with the id \<open>core_rtr_1\<close> the directory keeps
  the device of the first, and the device built last is not in it.
\<close>

theorem last_device_dropped_counterexample:
  "Devices_init example_env [example_raw, twin_raw] =
     Inr \<lparr> ids = [''core_rtr_1''], hostnames = [''Core RTR #1'', ''core rtr 1''],
           objects = [example_device] \<rparr> \<and>
   Device_init example_env twin_raw = Inr twin_device \<and>
   device_id twin_device = device_id example_device \<and>
   name twin_device = ''core rtr 1'' \<and> name example_device = ''Core RTR #1''"
  by (simp add: Devices_init_def example_Device_init twin_Device_init set_add_def device_eq_def
        twin_fields example_name)

subsection \<open>Plugins and the directives that use them\<close>

lemma add_plugin_update:
  "add_plugin result plugin i = result(plugin \<mapsto> insert i (ids_at result plugin))"
  by (auto simp: add_plugin_def ids_at_def Let_def split: option.splits)

lemma ids_at_add_plugin:
  "ids_at (add_plugin result plugin i) k =
     (if k = plugin then insert i (ids_at result k) else ids_at result k)"
  by (simp add: add_plugin_update ids_at_def)

lemma no_empty_entry_add_plugin:
  "no_empty_entry result \<Longrightarrow> no_empty_entry (add_plugin result plugin i)"
  by (simp add: add_plugin_update no_empty_entry_def)

lemma fold_add_plugin:
  "ids_at (fold (\<lambda>plugin r. add_plugin r plugin i) ps result) k =
     ids_at result k \<union> (if k \<in> set ps then {i} else {})"
  by (induction ps arbitrary: result) (auto simp: ids_at_add_plugin)

lemma fold_add_plugin_no_empty:
  "no_empty_entry result \<Longrightarrow> no_empty_entry (fold (\<lambda>plugin r. add_plugin r plugin i) ps result)"
  by (induction ps arbitrary: result) (auto simp: no_empty_entry_add_plugin)

lemma ids_at_directive_step:
  "ids_at (directive_step Path plugin_names d result) k =
     ids_at result k \<union>
     (if k \<in> Path ` {p \<in> set (plugins d). p \<in> set plugin_names} then {directive_id d} else {})"
  by (simp add: directive_step_def fold_add_plugin)

lemma no_empty_entry_directive_step:
  "no_empty_entry result \<Longrightarrow> no_empty_entry (directive_step Path plugin_names d result)"
  by (simp add: directive_step_def fold_add_plugin_no_empty)

lemma ids_at_fold_directive_step:
  "ids_at (fold (directive_step Path plugin_names) ds result) k =
     ids_at result k \<union>
     {directive_id d | d. d \<in> set ds \<and> k \<in> Path ` {p \<in> set (plugins d). p \<in> set plugin_names}}"
proof (induction ds arbitrary: result)
  case Nil
  then show ?case by simp
next
  case (Cons d ds)
  show ?case
    unfolding fold_simps Cons.IH ids_at_directive_step by auto
qed

lemma no_empty_entry_fold_directive_step:
  "no_empty_entry result \<Longrightarrow> no_empty_entry (fold (directive_step Path plugin_names) ds result)"
  by (induction ds arbitrary: result) (auto simp: no_empty_entry_directive_step)

lemma lookup_ids_at:
  "no_empty_entry result \<Longrightarrow> result k = (if ids_at result k = {} then None else Some (ids_at result k))"
  by (cases "result k") (auto simp: ids_at_def no_empty_entry_def)

text \<open>
  C8. \<open>directive_plugins\<close> maps a path to the set of the ids of all directives, of any
  device of the directory, one of whose plugin references has that path; a path no
  directive refers to is no key.
\<close>

theorem directive_plugins_index:
  "directive_plugins Path ds k =
     (if \<exists>dev\<in>set (objects ds). \<exists>d\<in>set (directives dev). k \<in> Path ` set (plugins d)
      then Some {directive_id d | d.
                   (\<exists>dev\<in>set (objects ds). d \<in> set (directives dev)) \<and> k \<in> Path ` set (plugins d)}
      else None)"
proof -
  let ?all = "remdups (concat (map directives (objects ds)))"
  let ?names = "remdups (concat (map plugins ?all))"
  let ?result = "fold (directive_step Path ?names) ?all Map.empty"
  have known: "{p \<in> set (plugins d). p \<in> set ?names} = set (plugins d)" if "d \<in> set ?all" for d
    using that by auto
  have empty: "ids_at Map.empty k = {}"
    by (simp add: ids_at_def)
  have "ids_at ?result k =
      {directive_id d | d. d \<in> set ?all \<and> k \<in> Path ` {p \<in> set (plugins d). p \<in> set ?names}}"
    by (simp only: ids_at_fold_directive_step empty Un_empty_left)
  also have "\<dots> = {directive_id d | d. d \<in> set ?all \<and> k \<in> Path ` set (plugins d)}"
    using known by (intro Collect_cong) (metis (no_types, lifting))
  also have "\<dots> = {directive_id d | d.
      (\<exists>dev\<in>set (objects ds). d \<in> set (directives dev)) \<and> k \<in> Path ` set (plugins d)}"
    by auto
  finally have ids: "ids_at ?result k = {directive_id d | d.
      (\<exists>dev\<in>set (objects ds). d \<in> set (directives dev)) \<and> k \<in> Path ` set (plugins d)}" .
  have "no_empty_entry ?result"
    by (rule no_empty_entry_fold_directive_step) (simp add: no_empty_entry_def)
  from lookup_ids_at [OF this, of k] have "directive_plugins Path ds k =
      (if ids_at ?result k = {} then None else Some (ids_at ?result k))"
    by (simp add: directive_plugins_def Let_def)
  then show ?thesis unfolding ids by auto
qed

lemma example_devices_directives:
  "objects example_devices = [example_device, edge_device]"
  "directives example_device = [show_bgp, builtin_ping, builtin_traceroute]"
  "directives edge_device = [show_bgp, builtin_ping]"
  by (simp_all add: example_devices_def edge_device_def example_device_def)

lemma referencing_ids_list:
  "{directive_id d | d. (\<exists>dev\<in>set objs. d \<in> set (directives dev)) \<and> k \<in> Path ` set (plugins d)} =
     set (map directive_id
           (filter (\<lambda>d. k \<in> Path ` set (plugins d)) (concat (map directives objs))))"
  by auto

theorem directive_plugins_index_witness:
  "directive_plugins (\<lambda>p. p) example_devices ''bgp_route.py'' = Some {''show-bgp''} \<and>
   directive_plugins (\<lambda>p. p) example_devices ''remove_command.py'' =
     Some {''show-bgp'', ''__hyperglass_cisco_ios_ping__''} \<and>
   directive_plugins (\<lambda>p. p) example_devices ''traceroute.py'' = None"
proof -
  note fields = example_devices_directives example_directive_fields
  have "directive_plugins (\<lambda>p. p) example_devices ''bgp_route.py'' = Some {''show-bgp''}"
    unfolding directive_plugins_index [of "\<lambda>p. p" example_devices "''bgp_route.py''"]
      referencing_ids_list
    by (simp add: fields)
  moreover have "directive_plugins (\<lambda>p. p) example_devices ''remove_command.py'' =
      Some {''show-bgp'', ''__hyperglass_cisco_ios_ping__''}"
    unfolding directive_plugins_index [of "\<lambda>p. p" example_devices "''remove_command.py''"]
      referencing_ids_list
    by (simp add: fields insert_commute)
  moreover have "directive_plugins (\<lambda>p. p) example_devices ''traceroute.py'' = None"
    unfolding directive_plugins_index [of "\<lambda>p. p" example_devices "''traceroute.py''"]
      referencing_ids_list
    by (simp add: fields)
  ultimately show ?thesis by simp
qed

end
